theory Spec2Isabelle
  imports Complex_Main
begin

unbundle bit_operations_syntax

section \<open>Data model of glthreadsint.c\<close>

text \<open>
  Handles (\<open>Display *\<close>, \<open>Window\<close>, \<open>GLXContext\<close>, \<open>pthread_t\<close>) are natural numbers,
  with \<open>0\<close> for \<open>NULL\<close>/\<open>None\<close>.  C \<open>int\<close> values are integers; no claim depends on
  their overflow.  Memory is sequentially consistent.
\<close>

type_synonym handle = nat

text \<open>
  The rotation angles are C \<open>float\<close>s.  An angle is recorded by how it was computed:
  \<open>Angle_zero\<close> is \<open>0.0\<close>, and \<open>Angle_add a d w\<close> is the float that
  \<open>a += (float) d / (float) w * 180.\<close> leaves.  Its numerical value, with the rounding,
  the infinities and the NaN of binary floating point, is not computed.
\<close>

datatype angle = Angle_zero | Angle_add angle int int

text \<open>\<open>struct winthread\<close>.  \<open>Ready\<close> is the per-unit mutex used as a gate: \<open>True\<close> when locked.\<close>

record winthread =
  Dpy :: handle
  Index :: nat
  Thread :: handle
  Ready :: bool
  Win :: handle
  Context :: handle
  AngleX :: angle
  AngleY :: angle
  WinWidth :: int
  WinHeight :: int
  NewSize :: bool
  Initialized :: bool
  MakeNewTexture_flag :: bool
  MotionStartX :: int
  MotionStartY :: int

definition MAX_WINTHREADS :: int where
  "MAX_WINTHREADS = 100"

text \<open>The static mode flags \<open>MultiDisplays\<close>, \<open>Locking\<close>, \<open>Texture\<close> and \<open>Animate\<close>.\<close>

record flags =
  MultiDisplays :: bool
  Locking :: bool
  Texture :: bool
  Animate :: bool

text \<open>The locals of \<open>main\<close> that the argument loop sets, together with the flags.\<close>

record options = flags +
  displayName :: "string option"
  numThreads :: int

text \<open>How a run of the process ends: \<open>exit(n)\<close> or \<open>return n\<close> from \<open>main\<close>, or a failed \<open>assert\<close>.\<close>

datatype outcome = Exited int | Aborted

datatype printed = Stdout string | Stderr string

section \<open>Command line\<close>

text \<open>The lines of \<open>usage()\<close>, without their newlines.\<close>

definition usage :: "printed list" where
  "usage =
    [Stdout ''glthreads: test of GL thread safety (any key = exit)'',
     Stdout ''Usage:'',
     Stdout ''  glthreads [options]'',
     Stdout ''Options:'',
     Stdout ''   -display DISPLAYNAME  Specify display string'',
     Stdout ''   -n NUMTHREADS  Number of threads to create'',
     Stdout ''   -p  Use a separate display connection for each thread'',
     Stdout ''   -l  Use application-side locking'',
     Stdout ''   -t  Enable texturing'',
     Stdout ''Keyboard:'',
     Stdout ''   Esc  Exit'',
     Stdout ''   t    Change texture image (requires -t option)'',
     Stdout ''   a    Toggle animation'',
     Stdout ''   s    Step rotation (when not animating)'']"

text \<open>
  The initial values of the statics and of \<open>main\<close>'s locals
  (\<open>MultiDisplays = 0\<close>, \<open>Locking = 0\<close>, \<open>Texture = GL_FALSE\<close>, \<open>Animate = GL_TRUE\<close>,
  \<open>displayName = NULL\<close>, \<open>numThreads = 2\<close>).
\<close>

definition initial_options :: options where
  "initial_options =
    \<lparr>MultiDisplays = False, Locking = False, Texture = False, Animate = True,
     displayName = None, numThreads = 2\<rparr>"

text \<open>
  The \<open>for\<close> loop over \<open>argv[1..argc-1]\<close> of \<open>main\<close>.  The list is \<open>argv[i..]\<close>, so
  \<open>i + 1 < argc\<close> reads \<open>rest \<noteq> []\<close>.  The C library's \<open>atoi\<close> is a parameter.  The
  last branch is \<open>usage(); exit(1)\<close>.
\<close>

fun parse_loop ::
  "(string \<Rightarrow> int) \<Rightarrow> options \<Rightarrow> string list \<Rightarrow> (printed list \<times> outcome) + options" where
  "parse_loop atoi opts [] = Inr opts"
| "parse_loop atoi opts (a # rest) =
    (if a = ''-display'' \<and> rest \<noteq> [] then
       parse_loop atoi (opts\<lparr>displayName := Some (hd rest)\<rparr>) (tl rest)
     else if a = ''-p'' then parse_loop atoi (opts\<lparr>MultiDisplays := True\<rparr>) rest
     else if a = ''-l'' then parse_loop atoi (opts\<lparr>Locking := True\<rparr>) rest
     else if a = ''-t'' then parse_loop atoi (opts\<lparr>Texture := True\<rparr>) rest
     else if a = ''-n'' \<and> rest \<noteq> [] then
       parse_loop atoi
         (opts\<lparr>numThreads :=
            (let n = atoi (hd rest) in
             if n < 1 then 1 else if n > MAX_WINTHREADS then MAX_WINTHREADS else n)\<rparr>)
         (tl rest)
     else Inl (usage, Exited 1))"

text \<open>
  The head of \<open>main\<close>: \<open>args\<close> is \<open>argv[1..]\<close>, so \<open>argc == 1\<close> reads \<open>args = []\<close>.
  The result is what was printed and either the exit or the options to go on with.
\<close>

definition parse_args ::
  "(string \<Rightarrow> int) \<Rightarrow> string list \<Rightarrow> printed list \<times> (outcome + options)" where
  "parse_args atoi args =
    (if args = [] then (usage, Inr initial_options)
     else (case parse_loop atoi initial_options args of
             Inl (out, e) \<Rightarrow> (out, Inl e)
           | Inr opts \<Rightarrow> ([], Inr opts)))"

text \<open>
  The three ways the \<open>LOCK\<close>/\<open>UNLOCK\<close> macros guard a connection: the pthread mutex
  \<open>Mutex\<close> when \<open>Locking\<close>, else \<open>XLockDisplay\<close> when the connection is shared, else nothing.
\<close>

datatype discipline = ExplicitMutex | NativeDisplayLock | NoLock

definition lock_discipline :: "'a flags_scheme \<Rightarrow> discipline" where
  "lock_discipline f =
    (if Locking f then ExplicitMutex
     else if \<not> MultiDisplays f then NativeDisplayLock else NoLock)"

text \<open>
  The \<open>atoi\<close> of the GNU C library with a 64-bit \<open>long\<close>, which is
  \<open>(int) strtol(s, NULL, 10)\<close>: leading white space, an optional sign, then the longest run
  of decimal digits (none gives 0); \<open>strtol\<close> saturates at the bounds of \<open>long\<close> and the
  conversion to \<open>int\<close> keeps the low 32 bits as a signed number.
\<close>

definition isspace :: "char \<Rightarrow> bool" where
  "isspace c = (c \<in> set [CHR '' '', CHR 0x09, CHR 0x0A, CHR 0x0B, CHR 0x0C, CHR 0x0D])"

definition isdigit :: "char \<Rightarrow> bool" where
  "isdigit c = (c \<in> set ''0123456789'')"

fun digits :: "int \<Rightarrow> string \<Rightarrow> int" where
  "digits acc [] = acc"
| "digits acc (c # cs) =
    (if isdigit c then digits (10 * acc + (of_char c - 48)) cs else acc)"

definition strtol :: "string \<Rightarrow> int" where
  "strtol s =
    (let v = (case dropWhile isspace s of
                [] \<Rightarrow> 0
              | c # cs \<Rightarrow>
                  if c = CHR ''-'' then - digits 0 cs
                  else if c = CHR ''+'' then digits 0 cs
                  else digits 0 (c # cs))
     in max (- 9223372036854775808) (min 9223372036854775807 v))"

definition atoi_c :: "string \<Rightarrow> int" where
  "atoi_c s = (strtol s + 2147483648) mod 4294967296 - 2147483648"

section \<open>Program state\<close>

datatype gl_enum =
    GL_TEXTURE_2D | GL_TEXTURE_WIDTH | GL_TEXTURE_MIN_FILTER | GL_TEXTURE_MAG_FILTER
  | GL_LINEAR | GL_RGBA | GL_FLOAT | GL_DEPTH_TEST | GL_RENDERER

text \<open>
  \<open>GLfloat image[TEX_SIZE][TEX_SIZE][4]\<close>, row by row: \<open>image[j][i]\<close> is element
  \<open>TEX_SIZE * j + i\<close> of the list.  The texel \<open>image[j][i]\<close> is recorded as
  \<open>Texel v j i\<close>, where \<open>v\<close> is the value of \<open>step\<close> that the loop body read for it: its
  components are \<open>0.75 + 0.25 * cos(r)\<close> three times and \<open>1.0\<close>, with
  \<open>r = dt * dt + ds * ds + v\<close>, \<open>dt = 5.0 * (j - 0.5 * TEX_SIZE) / TEX_SIZE\<close> and
  \<open>ds = 5.0 * (i - 0.5 * TEX_SIZE) / TEX_SIZE\<close>, in C floating point arithmetic, which is
  not computed here.
\<close>

datatype texel = Texel real nat nat

type_synonym image = "texel list"

text \<open>
  Where a thread is inside \<open>MakeNewTexture\<close>, with the values of its locals:
  \<^item> \<open>M_loop k img\<close>: at the test of the loops with \<open>k\<close> texels written (\<open>j = k / TEX_SIZE\<close>,
    \<open>i = k % TEX_SIZE\<close>), \<open>img\<close> being the image so far;
  \<^item> \<open>M_load img\<close>: before \<open>step += 0.5\<close> reads \<open>step\<close>;
  \<^item> \<open>M_store img v\<close>: \<open>step += 0.5\<close> has read \<open>v\<close> and not yet written the sum;
  \<^item> \<open>M_bind img\<close>: before \<open>glBindTexture\<close>;
  \<^item> \<open>M_query img\<close>: before \<open>glGetTexLevelParameteriv\<close>;
  \<^item> \<open>M_upload img width\<close>: at \<open>if (width)\<close>;
  \<^item> \<open>M_mag img\<close>: before the second \<open>glTexParameteri\<close>;
  \<^item> \<open>M_teximage img\<close>: before \<open>glTexImage2D\<close>;
  \<^item> \<open>M_return\<close>: the call returns.
  The two calls of \<open>MakeNewTexture\<close> in \<open>draw_loop\<close> are in the first-frame block (line 276)
  and in the block of the request flag (line 298).
\<close>

datatype mnt =
    M_loop nat image | M_load image | M_store image real | M_bind image | M_query image
  | M_upload image int | M_mag image | M_teximage image | M_return

datatype site = First_frame | Requested

text \<open>
  The control points of \<open>draw_loop\<close>, one for each statement or group of statements that a
  thread runs as one step (line numbers of glthreadsint.c):
  \<^item> \<open>P_while\<close>: the test \<open>while (!ExitFlag)\<close> (264);
  \<^item> \<open>P_lock_Ready\<close>: \<open>pthread_mutex_lock(&wt->Ready)\<close> (266);
  \<^item> \<open>P_check\<close>: \<open>if (ExitFlag) break\<close> (267);
  \<^item> \<open>P_LOCK1\<close>: \<open>LOCK(wt->Dpy)\<close> (269);
  \<^item> \<open>P_current\<close>: \<open>glXMakeCurrent\<close> and the first-frame block up to the call of
    \<open>MakeNewTexture\<close>, or to its end without texturing (271-279);
  \<^item> \<open>P_MakeNewTexture site m\<close>: at \<open>m\<close> inside the call of \<open>MakeNewTexture\<close> made at
    \<open>site\<close>; the return does the assignment that follows the call (278 or 299);
  \<^item> \<open>P_UNLOCK1\<close>: \<open>UNLOCK(wt->Dpy)\<close> (281);
  \<^item> \<open>P_newsize\<close>: \<open>glEnable\<close> and the \<open>NewSize\<close> block (283-295);
  \<^item> \<open>P_texture\<close>: the test \<open>if (wt->MakeNewTexture)\<close> (297);
  \<^item> \<open>P_draw\<close>: \<open>glClear\<close> to \<open>glPopMatrix\<close> (302-309);
  \<^item> \<open>P_LOCK2\<close>, \<open>P_swap\<close>, \<open>P_UNLOCK2\<close>: lines 311, 313, 315;
  \<^item> \<open>P_pace\<close>: \<open>usleep\<close>, or locking \<open>CondMutex\<close> and entering
    \<open>pthread_cond_wait\<close> (317-323);
  \<^item> \<open>P_wait\<close>: inside \<open>pthread_cond_wait\<close>, not yet woken;
  \<^item> \<open>P_woken\<close>: woken, about to take \<open>CondMutex\<close> again and unlock it (323-324);
  \<^item> \<open>P_done\<close>: \<open>draw_loop\<close> has returned.
\<close>

datatype pc =
    P_while | P_lock_Ready | P_check | P_LOCK1 | P_current | P_MakeNewTexture site mnt
  | P_UNLOCK1 | P_newsize | P_texture | P_draw | P_LOCK2 | P_swap | P_UNLOCK2 | P_pace
  | P_wait | P_woken | P_done

text \<open>
  The calls of a render thread that reach the threads library, GLX or OpenGL.
  \<open>reshape w h\<close> stands for the seven calls of the \<open>NewSize\<close> block (\<open>glViewport\<close> to
  \<open>glTranslatef\<close>) at width \<open>w\<close> and height \<open>h\<close>; \<open>draw_frame ay ax tex\<close> stands for
  \<open>glClear\<close>, the two rotations by \<open>AngleY\<close> and \<open>AngleX\<close>, the scaling and \<open>draw_object()\<close>
  with \<open>Texture = tex\<close>.
\<close>

datatype call =
    pthread_mutex_lock_Ready
  | LOCK discipline
  | UNLOCK discipline
  | glXMakeCurrent handle handle handle
  | glGetString gl_enum
  | glBindTexture gl_enum nat
  | glGetTexLevelParameteriv gl_enum int gl_enum
  | glTexSubImage2D gl_enum int int int int int gl_enum gl_enum image
  | glTexParameteri gl_enum gl_enum gl_enum
  | glTexImage2D gl_enum int gl_enum int int int gl_enum gl_enum image
  | glEnable gl_enum
  | reshape int int
  | draw_frame angle angle bool
  | glXSwapBuffers handle handle
  | usleep nat
  | pthread_cond_wait

text \<open>
  The writes and library calls of the main thread while it dispatches an event.  The
  argument \<open>i\<close> is the index of the unit \<open>wt = &WinThreads[i]\<close>.
\<close>

datatype dop =
    Set_NewSize nat
  | Set_WinWidth nat int
  | Set_WinHeight nat int
  | Lock_CondMutex
  | Cond_broadcast
  | Unlock_CondMutex
  | Set_ExitFlag
  | Unlock_Ready nat
  | Set_MakeNewTexture nat
  | Add_AngleX nat int
  | Add_AngleY nat int
  | Set_MotionStartX nat int
  | Set_MotionStartY nat int

text \<open>What has happened so far, oldest first: an operation of the main thread, or a call
  of the render thread of unit \<open>i\<close>.\<close>

datatype event = Main dop | Unit nat call

text \<open>
  The statics of the program (\<open>WinThreads\<close> holds the first \<open>NumWinThreads\<close> entries of
  the array, the only ones any loop touches), the three locks (\<open>True\<close> when held), the
  local static \<open>step\<close> of \<open>MakeNewTexture\<close> (a C \<open>float\<close>: the real number it holds), the
  width that OpenGL holds for level 0 of the texture object \<open>TexObj\<close> (0 until an image is
  specified), the control point of every render thread, whether an \<open>assert\<close> has aborted the
  process, and the history.
\<close>

record state = flags +
  WinThreads :: "winthread list"
  ExitFlag :: bool
  Mutex :: bool
  DpyLock :: bool
  CondMutex :: bool
  step :: real
  TexWidth :: int
  pcs :: "pc list"
  aborted :: bool
  trace :: "event list"

definition NumWinThreads :: "state \<Rightarrow> nat" where
  "NumWinThreads s = length (WinThreads s)"

definition TexObj :: nat where
  "TexObj = 12"

definition TEX_SIZE :: int where
  "TEX_SIZE = 128"

definition upd_wt :: "nat \<Rightarrow> (winthread \<Rightarrow> winthread) \<Rightarrow> state \<Rightarrow> state" where
  "upd_wt i f s = s\<lparr>WinThreads := (WinThreads s)[i := f (WinThreads s ! i)]\<rparr>"

definition log :: "event \<Rightarrow> state \<Rightarrow> state" where
  "log e s = s\<lparr>trace := trace s @ [e]\<rparr>"

section \<open>The main thread: event dispatch\<close>

datatype keysym = XK_Escape | XK_t | XK_T | XK_a | XK_A | XK_s | XK_S | XK_other nat

text \<open>
  The events \<open>event_loop\<close> tells apart, with the fields it reads.  A \<open>KeyPress\<close> carries the
  key symbol that \<open>XLookupString\<close> reports for it.
\<close>

datatype xevent =
    ConfigureNotify handle int int
  | MotionNotify handle nat int int
  | ButtonPress handle int int
  | ButtonRelease handle
  | Expose handle
  | KeyPress handle keysym
  | OtherEvent

definition signal_redraw :: "dop list" where
  "signal_redraw = [Lock_CondMutex, Cond_broadcast, Unlock_CondMutex]"

definition resize :: "state \<Rightarrow> nat \<Rightarrow> int \<Rightarrow> int \<Rightarrow> dop list" where
  "resize s i w h =
    [Set_NewSize i, Set_WinWidth i w, Set_WinHeight i h] @
    (if \<not> Animate s then signal_redraw else [])"

text \<open>The loop \<open>for (i = 0; i < NumWinThreads; i++) pthread_mutex_unlock(&wt1->Ready)\<close>,
  from \<open>i\<close> on.\<close>

function unlock_loop :: "nat \<Rightarrow> nat \<Rightarrow> dop list" where
  "unlock_loop i n = (if i < n then Unlock_Ready i # unlock_loop (i + 1) n else [])"
  by pat_completeness auto
termination
  by (relation "measure (\<lambda>(i, n). n - i)") auto

declare unlock_loop.simps [simp del]

text \<open>\<open>keypress(event, wt)\<close> with \<open>wt = &WinThreads[i]\<close>.  \<open>case XK_a\<close> falls through to
  the step keys, since the lines between them are compiled out.\<close>

definition keypress :: "state \<Rightarrow> keysym \<Rightarrow> nat \<Rightarrow> dop list" where
  "keypress s keySym i =
    (case keySym of
       XK_Escape \<Rightarrow>
         (if \<not> Animate s then signal_redraw else []) @
         [Set_ExitFlag] @ unlock_loop 0 (NumWinThreads s)
     | XK_t \<Rightarrow>
         (if Texture s then
            Set_MakeNewTexture i # (if \<not> Animate s then signal_redraw else [])
          else [])
     | XK_T \<Rightarrow>
         (if Texture s then
            Set_MakeNewTexture i # (if \<not> Animate s then signal_redraw else [])
          else [])
     | XK_a \<Rightarrow> (if \<not> Animate s then signal_redraw else [])
     | XK_s \<Rightarrow> (if \<not> Animate s then signal_redraw else [])
     | XK_S \<Rightarrow> (if \<not> Animate s then signal_redraw else [])
     | _ \<Rightarrow> [])"

text \<open>The search \<open>for (i = 0; i < NumWinThreads; i++) if (window == wt->Win) { ...; break; }\<close>
  that every case of \<open>event_loop\<close> starts with: the first matching index from \<open>i\<close> on.\<close>

function find_winthread :: "winthread list \<Rightarrow> handle \<Rightarrow> nat \<Rightarrow> nat option" where
  "find_winthread wts w i =
    (if i < length wts then
       (if w = Win (wts ! i) then Some i else find_winthread wts w (i + 1))
     else None)"
  by pat_completeness auto
termination
  by (relation "measure (\<lambda>(wts, w, i). length wts - i)") auto

declare find_winthread.simps [simp del]

text \<open>The button bits of the X protocol's key/button mask (\<open>X.h\<close>).\<close>

definition Button1Mask :: nat where "Button1Mask = 256"
definition Button2Mask :: nat where "Button2Mask = 512"
definition Button3Mask :: nat where "Button3Mask = 1024"
definition Button4Mask :: nat where "Button4Mask = 2048"
definition Button5Mask :: nat where "Button5Mask = 4096"

definition button_held :: "nat \<Rightarrow> bool" where
  "button_held st =
    (st AND Button1Mask \<noteq> 0 \<or> st AND Button2Mask \<noteq> 0 \<or> st AND Button3Mask \<noteq> 0 \<or>
     st AND Button4Mask \<noteq> 0 \<or> st AND Button5Mask \<noteq> 0)"

text \<open>What \<open>event_loop_multi\<close> does with an event read from the connection of unit \<open>i\<close>.\<close>

definition dispatch_multi :: "state \<Rightarrow> nat \<Rightarrow> xevent \<Rightarrow> dop list" where
  "dispatch_multi s i ev =
    (case ev of
       ConfigureNotify win w h \<Rightarrow> resize s i w h @ [Unlock_Ready i]
     | MotionNotify win st x y \<Rightarrow>
         (if button_held st then
            [Add_AngleX i x, Add_AngleY i y, Set_MotionStartX i x, Set_MotionStartY i y]
          else []) @ [Unlock_Ready i]
     | ButtonPress win x y \<Rightarrow> [Set_MotionStartX i x, Set_MotionStartY i y]
     | ButtonRelease win \<Rightarrow> [Unlock_Ready i]
     | Expose win \<Rightarrow> [Unlock_Ready i]
     | KeyPress win keySym \<Rightarrow> keypress s keySym i
     | OtherEvent \<Rightarrow> [])"

definition event_window :: "xevent \<Rightarrow> handle option" where
  "event_window ev =
    (case ev of
       ConfigureNotify win w h \<Rightarrow> Some win
     | MotionNotify win st x y \<Rightarrow> Some win
     | ButtonPress win x y \<Rightarrow> Some win
     | ButtonRelease win \<Rightarrow> Some win
     | Expose win \<Rightarrow> Some win
     | KeyPress win keySym \<Rightarrow> Some win
     | OtherEvent \<Rightarrow> None)"

text \<open>
  The \<open>switch\<close> of \<open>event_loop\<close>, on the event that \<open>XNextEvent\<close> returned: each case
  searches the unit of the event's window and does for it what \<open>event_loop_multi\<close> does
  for its current unit; with no such unit nothing happens.
\<close>

definition dispatch :: "state \<Rightarrow> xevent \<Rightarrow> dop list" where
  "dispatch s ev =
    (case event_window ev of
       None \<Rightarrow> []
     | Some win \<Rightarrow>
         (case find_winthread (WinThreads s) win 0 of
            None \<Rightarrow> []
          | Some i \<Rightarrow> dispatch_multi s i ev))"

text \<open>
  What one operation of the main thread does to the state.  Unlocking \<open>Ready\<close> opens the
  gate whether or not it was closed.  A broadcast moves every thread that is inside
  \<open>pthread_cond_wait\<close> to \<open>P_woken\<close> and no other.  The rotation is
  \<open>wt->AngleX += (float) (x - wt->MotionStartX) / (float) wt->WinWidth * 180.\<close>
\<close>

fun exec_dop :: "dop \<Rightarrow> state \<Rightarrow> state" where
  "exec_dop (Set_NewSize i) s = upd_wt i (\<lambda>wt. wt\<lparr>NewSize := True\<rparr>) s"
| "exec_dop (Set_WinWidth i w) s = upd_wt i (\<lambda>wt. wt\<lparr>WinWidth := w\<rparr>) s"
| "exec_dop (Set_WinHeight i h) s = upd_wt i (\<lambda>wt. wt\<lparr>WinHeight := h\<rparr>) s"
| "exec_dop Lock_CondMutex s = s\<lparr>CondMutex := True\<rparr>"
| "exec_dop Cond_broadcast s =
     s\<lparr>pcs := map (\<lambda>p. if p = P_wait then P_woken else p) (pcs s)\<rparr>"
| "exec_dop Unlock_CondMutex s = s\<lparr>CondMutex := False\<rparr>"
| "exec_dop Set_ExitFlag s = s\<lparr>ExitFlag := True\<rparr>"
| "exec_dop (Unlock_Ready i) s = upd_wt i (\<lambda>wt. wt\<lparr>Ready := False\<rparr>) s"
| "exec_dop (Set_MakeNewTexture i) s = upd_wt i (\<lambda>wt. wt\<lparr>MakeNewTexture_flag := True\<rparr>) s"
| "exec_dop (Add_AngleX i x) s =
     upd_wt i (\<lambda>wt. wt\<lparr>AngleX :=
       Angle_add (AngleX wt) (x - MotionStartX wt) (WinWidth wt)\<rparr>) s"
| "exec_dop (Add_AngleY i y) s =
     upd_wt i (\<lambda>wt. wt\<lparr>AngleY :=
       Angle_add (AngleY wt) (y - MotionStartY wt) (WinHeight wt)\<rparr>) s"
| "exec_dop (Set_MotionStartX i x) s = upd_wt i (\<lambda>wt. wt\<lparr>MotionStartX := x\<rparr>) s"
| "exec_dop (Set_MotionStartY i y) s = upd_wt i (\<lambda>wt. wt\<lparr>MotionStartY := y\<rparr>) s"

text \<open>The main thread runs an operation and the history records it; nothing runs once
  the process has aborted.\<close>

definition main_step :: "dop \<Rightarrow> state \<Rightarrow> state" where
  "main_step d s = (if aborted s then s else log (Main d) (exec_dop d s))"

text \<open>The main thread runs a handler to its end with no render thread in between.\<close>

definition main_steps :: "dop list \<Rightarrow> state \<Rightarrow> state" where
  "main_steps ds s = foldl (\<lambda>s d. main_step d s) s ds"

section \<open>The render threads\<close>

definition goto :: "nat \<Rightarrow> pc \<Rightarrow> state \<Rightarrow> state" where
  "goto i p s = s\<lparr>pcs := (pcs s)[i := p]\<rparr>"

definition did :: "nat \<Rightarrow> call \<Rightarrow> state \<Rightarrow> state" where
  "did i c s = log (Unit i c) s"

text \<open>The image that the two loops build when every texel reads the same value of
  \<open>step\<close>.\<close>

definition make_image :: "real \<Rightarrow> image" where
  "make_image v =
    map (\<lambda>k. Texel v (k div nat TEX_SIZE) (k mod nat TEX_SIZE)) [0..<nat (TEX_SIZE * TEX_SIZE)]"

text \<open>
  The float that \<open>step += 0.5\<close> stores after reading \<open>v\<close>, for the values \<open>step\<close> takes
  (the multiples of 0.5 from 0 on): below \<open>2^23 = 8388608\<close> the sum is a float; at
  \<open>8388608\<close>, where neighbouring floats are 1 apart, the sum lies halfway between two
  floats and is rounded to the even one, \<open>8388608\<close> again.
\<close>

definition add_half :: "real \<Rightarrow> real" where
  "add_half v = (if v < 8388608 then v + 0.5 else v)"

text \<open>
  One step of \<open>MakeNewTexture(wt)\<close> in the thread of unit \<open>i\<close>, which is at \<open>m\<close> in the call
  made at \<open>site\<close>.  Each pass of the loop body reads \<open>step\<close>; \<open>step += 0.5\<close> reads and
  writes \<open>step\<close> in two steps.  \<open>glGetTexLevelParameteriv\<close> reads the width OpenGL holds for
  the object, \<open>glTexImage2D\<close> sets it to the width it is given.
  \<open>assert(width == TEX_SIZE)\<close> aborts the process when it fails.  No lock is taken.
\<close>

definition MakeNewTexture :: "nat \<Rightarrow> site \<Rightarrow> mnt \<Rightarrow> state \<Rightarrow> state" where
  "MakeNewTexture i site m s =
    (case m of
       M_loop k img \<Rightarrow>
         (if int k < TEX_SIZE * TEX_SIZE then
            goto i (P_MakeNewTexture site
              (M_loop (k + 1)
                 (img @ [Texel (step s) (k div nat TEX_SIZE) (k mod nat TEX_SIZE)]))) s
          else goto i (P_MakeNewTexture site (M_load img)) s)
     | M_load img \<Rightarrow> goto i (P_MakeNewTexture site (M_store img (step s))) s
     | M_store img v \<Rightarrow> goto i (P_MakeNewTexture site (M_bind img)) (s\<lparr>step := add_half v\<rparr>)
     | M_bind img \<Rightarrow>
         goto i (P_MakeNewTexture site (M_query img)) (did i (glBindTexture GL_TEXTURE_2D TexObj) s)
     | M_query img \<Rightarrow>
         goto i (P_MakeNewTexture site (M_upload img (TexWidth s)))
           (did i (glGetTexLevelParameteriv GL_TEXTURE_2D 0 GL_TEXTURE_WIDTH) s)
     | M_upload img width \<Rightarrow>
         (if width \<noteq> 0 then
            (if width = TEX_SIZE then
               goto i (P_MakeNewTexture site M_return)
                 (did i (glTexSubImage2D GL_TEXTURE_2D 0 0 0 TEX_SIZE TEX_SIZE GL_RGBA GL_FLOAT
                           img) s)
             else s\<lparr>aborted := True\<rparr>)
          else
            goto i (P_MakeNewTexture site (M_mag img))
              (did i (glTexParameteri GL_TEXTURE_2D GL_TEXTURE_MIN_FILTER GL_LINEAR) s))
     | M_mag img \<Rightarrow>
         goto i (P_MakeNewTexture site (M_teximage img))
           (did i (glTexParameteri GL_TEXTURE_2D GL_TEXTURE_MAG_FILTER GL_LINEAR) s)
     | M_teximage img \<Rightarrow>
         goto i (P_MakeNewTexture site M_return)
           ((did i (glTexImage2D GL_TEXTURE_2D 0 GL_RGBA TEX_SIZE TEX_SIZE 0 GL_RGBA GL_FLOAT img)
               s)\<lparr>TexWidth := TEX_SIZE\<rparr>)
     | M_return \<Rightarrow>
         (case site of
            First_frame \<Rightarrow> goto i P_UNLOCK1 (upd_wt i (\<lambda>wt. wt\<lparr>Initialized := True\<rparr>) s)
          | Requested \<Rightarrow>
              goto i P_draw (upd_wt i (\<lambda>wt. wt\<lparr>MakeNewTexture_flag := False\<rparr>) s)))"

text \<open>The macros \<open>LOCK(wt->Dpy)\<close> and \<open>UNLOCK(wt->Dpy)\<close> in the thread of unit \<open>i\<close>, which
  goes on at \<open>p\<close>.  A thread that finds the lock held stays where it is.\<close>

definition LOCK_step :: "nat \<Rightarrow> pc \<Rightarrow> state \<Rightarrow> state" where
  "LOCK_step i p s =
    (if Locking s then
       (if Mutex s then s else goto i p (did i (LOCK ExplicitMutex) (s\<lparr>Mutex := True\<rparr>)))
     else if \<not> MultiDisplays s then
       (if DpyLock s then s
        else goto i p (did i (LOCK NativeDisplayLock) (s\<lparr>DpyLock := True\<rparr>)))
     else goto i p s)"

definition UNLOCK_step :: "nat \<Rightarrow> pc \<Rightarrow> state \<Rightarrow> state" where
  "UNLOCK_step i p s =
    (if Locking s then goto i p (did i (UNLOCK ExplicitMutex) (s\<lparr>Mutex := False\<rparr>))
     else if \<not> MultiDisplays s then
       goto i p (did i (UNLOCK NativeDisplayLock) (s\<lparr>DpyLock := False\<rparr>))
     else goto i p s)"

text \<open>
  One step of \<open>draw_loop(wt)\<close> for \<open>wt = &WinThreads[i]\<close>, from the control point the
  thread is at.  A thread that is blocked (on its gate, on a lock, inside
  \<open>pthread_cond_wait\<close>) or has returned leaves the state as it is.
\<close>

definition draw_loop_step :: "nat \<Rightarrow> state \<Rightarrow> state" where
  "draw_loop_step i s =
    (let wt = WinThreads s ! i in
     case pcs s ! i of
       P_while \<Rightarrow> (if \<not> ExitFlag s then goto i P_lock_Ready s else goto i P_done s)
     | P_lock_Ready \<Rightarrow>
         (if Ready wt then s
          else goto i P_check
                 (did i pthread_mutex_lock_Ready (upd_wt i (\<lambda>wt. wt\<lparr>Ready := True\<rparr>) s)))
     | P_check \<Rightarrow> (if ExitFlag s then goto i P_done s else goto i P_LOCK1 s)
     | P_LOCK1 \<Rightarrow> LOCK_step i P_current s
     | P_current \<Rightarrow>
         (let s1 = did i (glXMakeCurrent (Dpy wt) (Win wt) (Context wt)) s in
          if \<not> Initialized wt then
            (let s2 = did i (glGetString GL_RENDERER) s1 in
             if Texture s then goto i (P_MakeNewTexture First_frame (M_loop 0 [])) s2
             else goto i P_UNLOCK1 (upd_wt i (\<lambda>wt. wt\<lparr>Initialized := True\<rparr>) s2))
          else goto i P_UNLOCK1 s1)
     | P_MakeNewTexture site m \<Rightarrow> MakeNewTexture i site m s
     | P_UNLOCK1 \<Rightarrow> UNLOCK_step i P_newsize s
     | P_newsize \<Rightarrow>
         (let s1 = did i (glEnable GL_DEPTH_TEST) s in
          if NewSize wt then
            goto i P_texture
              (upd_wt i (\<lambda>wt. wt\<lparr>NewSize := False\<rparr>)
                 (did i (reshape (WinWidth wt) (WinHeight wt)) s1))
          else goto i P_texture s1)
     | P_texture \<Rightarrow>
         (if MakeNewTexture_flag wt then goto i (P_MakeNewTexture Requested (M_loop 0 [])) s
          else goto i P_draw s)
     | P_draw \<Rightarrow> goto i P_LOCK2 (did i (draw_frame (AngleY wt) (AngleX wt) (Texture s)) s)
     | P_LOCK2 \<Rightarrow> LOCK_step i P_swap s
     | P_swap \<Rightarrow> goto i P_UNLOCK2 (did i (glXSwapBuffers (Dpy wt) (Win wt)) s)
     | P_UNLOCK2 \<Rightarrow> UNLOCK_step i P_pace s
     | P_pace \<Rightarrow>
         (if Animate s then goto i P_while (did i (usleep 5000) s)
          else if CondMutex s then s
          else goto i P_wait (did i pthread_cond_wait s))
     | P_wait \<Rightarrow> s
     | P_woken \<Rightarrow> (if CondMutex s then s else goto i P_while s)
     | P_done \<Rightarrow> s)"

text \<open>A thread that exists and has work runs one step; nothing runs once the process
  has aborted.\<close>

definition thread_step :: "nat \<Rightarrow> state \<Rightarrow> state" where
  "thread_step i s =
    (if aborted s \<or> \<not> i < length (pcs s) \<or> \<not> i < length (WinThreads s) then s
     else draw_loop_step i s)"

text \<open>
  An interleaving of the process is a list of actions: the thread of unit \<open>i\<close> takes a
  step, or the main thread does its next operation, or the \<open>pthread_cond_wait\<close> of unit
  \<open>i\<close> returns without a broadcast, as POSIX allows.  \<open>run\<close> plays it from a state.
\<close>

datatype action = Unit_step nat | Main_op dop | Spurious_wakeup nat

fun perform :: "action \<Rightarrow> state \<Rightarrow> state" where
  "perform (Unit_step i) s = thread_step i s"
| "perform (Main_op d) s = main_step d s"
| "perform (Spurious_wakeup i) s =
    (if \<not> aborted s \<and> i < length (pcs s) \<and> pcs s ! i = P_wait then goto i P_woken s else s)"

definition run :: "action list \<Rightarrow> state \<Rightarrow> state" where
  "run sch s = foldl (\<lambda>s a. perform a s) s sch"

section \<open>Start-up and shutdown\<close>

text \<open>
  What the libraries answer during start-up: the handle each \<open>XOpenDisplay\<close> returns
  (call 0 is the shared connection, call \<open>i\<close> the connection of unit \<open>i\<close> with \<open>-p\<close>),
  whether \<open>glXChooseVisual\<close> finds a visual for unit \<open>i\<close>, the window and the context
  created for unit \<open>i\<close>, the values \<open>pthread_mutex_init\<close> and \<open>pthread_mutex_lock\<close> return
  for its gate, the thread identifier \<open>pthread_create\<close> stores, and the status of
  \<open>XInitThreads\<close>.
\<close>

record env =
  XOpenDisplay_ret :: "nat \<Rightarrow> handle"
  glXChooseVisual_ok :: "nat \<Rightarrow> bool"
  XCreateWindow_ret :: "nat \<Rightarrow> handle"
  glXCreateContext_ret :: "nat \<Rightarrow> handle"
  pthread_mutex_init_ret :: "nat \<Rightarrow> int"
  pthread_mutex_lock_ret :: "nat \<Rightarrow> int"
  pthread_create_id :: "nat \<Rightarrow> handle"
  XInitThreads_ret :: int

text \<open>\<open>Error(msg)\<close>: the message goes to \<open>stderr\<close> and the process exits with status 1.\<close>

definition Error :: "string \<Rightarrow> printed list \<times> outcome" where
  "Error msg = ([Stderr (''Error: '' @ msg)], Exited 1)"

text \<open>An entry of the static array before \<open>main\<close> writes to it: all zero.\<close>

definition zero_winthread :: winthread where
  "zero_winthread =
    \<lparr>Dpy = 0, Index = 0, Thread = 0, Ready = False, Win = 0, Context = 0,
     AngleX = Angle_zero, AngleY = Angle_zero, WinWidth = 0, WinHeight = 0, NewSize = False, Initialized = False,
     MakeNewTexture_flag = False, MotionStartX = 0, MotionStartY = 0\<rparr>"

text \<open>
  \<open>create_window(wt, shareCtx)\<close>.  The gate is locked when \<open>pthread_mutex_lock\<close> returns 0.
  The last test is \<open>pthread_mutex_init(...) == -1 || pthread_mutex_lock(...) == -1\<close>.
\<close>

definition create_window ::
  "env \<Rightarrow> winthread \<Rightarrow> handle \<Rightarrow> (printed list \<times> outcome) + winthread" where
  "create_window e wt shareCtx =
    (let width = 700; height = 700 in
     if \<not> glXChooseVisual_ok e (Index wt) then
       Inl (Error ''Unable to find RGB, Z, double-buffered visual'')
     else
       (let win = XCreateWindow_ret e (Index wt) in
        if win = 0 then Inl (Error ''Couldn't create window'')
        else
          (let ctx = glXCreateContext_ret e (Index wt) in
           if ctx = 0 then Inl (Error ''Couldn't create GLX context'')
           else
             (let wt1 = wt\<lparr>Win := win, Context := ctx, AngleX := Angle_zero,
                           AngleY := Angle_zero,
                           WinWidth := width, WinHeight := height, NewSize := True\<rparr>
              in if pthread_mutex_init_ret e (Index wt) = - 1 then Inl (Error ''strerror(errno)'')
                 else if pthread_mutex_lock_ret e (Index wt) = - 1 then
                   Inl (Error ''strerror(errno)'')
                 else Inr (wt1\<lparr>Ready := (pthread_mutex_lock_ret e (Index wt) = 0)\<rparr>)))))"

text \<open>
  The loop of \<open>main\<close> that creates the windows and contexts, from unit \<open>i\<close> on; \<open>wts\<close> are
  the entries written so far.  With \<open>-p\<close>, \<open>assert(WinThreads[i].Dpy)\<close> guards each
  connection.
\<close>

function create_windows ::
  "env \<Rightarrow> options \<Rightarrow> handle \<Rightarrow> nat \<Rightarrow> winthread list \<Rightarrow>
   (printed list \<times> outcome) + winthread list" where
  "create_windows e opts dpy i wts =
    (if int i < numThreads opts then
       (let d = (if MultiDisplays opts then XOpenDisplay_ret e i else dpy) in
        if MultiDisplays opts \<and> d = 0 then Inl ([], Aborted)
        else
          (let wt = zero_winthread\<lparr>Dpy := d, Index := i, Initialized := False\<rparr>;
               share = (if Texture opts \<and> i > 0 then Context (wts ! 0) else 0)
           in case create_window e wt share of
                Inl x \<Rightarrow> Inl x
              | Inr wt' \<Rightarrow> create_windows e opts dpy (i + 1) (wts @ [wt'])))
     else Inr wts)"
  by pat_completeness auto
termination
  by (relation "measure (\<lambda>(e, opts, dpy, i, wts). nat (numThreads opts) - i)") auto

declare create_windows.simps [simp del]

text \<open>The loop of \<open>main\<close> that creates the threads: \<open>pthread_create\<close> stores the identifier
  in \<open>WinThreads[i].Thread\<close>.\<close>

definition create_threads :: "env \<Rightarrow> winthread list \<Rightarrow> winthread list" where
  "create_threads e wts = map (\<lambda>wt. wt\<lparr>Thread := pthread_create_id e (Index wt)\<rparr>) wts"

text \<open>
  \<open>main\<close> up to the call of the event loop, after the argument loop: the messages, the
  shared connection (a \<open>NULL\<close> connection ends \<open>main\<close> with \<open>return -1\<close>), the windows, the
  threads.  The result is the state in which the event loop and the render threads start,
  together with the shared connection.
\<close>

definition start_up ::
  "env \<Rightarrow> options \<Rightarrow> printed list \<times> (outcome + (state \<times> handle))" where
  "start_up e opts =
    (let out1 =
           (if Locking opts then [Stdout ''glthreads: Using explicit locks around Xlib calls.'']
            else if \<not> MultiDisplays opts then
              [Stdout ''glthreads: Using XLockDisplay()/XUnlockDisplay().'']
            else []) @
           (if MultiDisplays opts then [Stdout ''glthreads: Per-thread display connections.'']
            else [Stdout ''glthreads: Single display connection.'']);
         out2 =
           (if \<not> MultiDisplays opts \<and> \<not> Locking opts then
              (if XInitThreads_ret e \<noteq> 0 then [Stdout ''XInitThreads() returned %d (success)'']
               else [Stdout ''XInitThreads() returned 0 (failure- this program may fail)''])
            else []);
         dpy = (if \<not> MultiDisplays opts then XOpenDisplay_ret e 0 else 0)
     in if \<not> MultiDisplays opts \<and> dpy = 0 then
          (out1 @ out2 @ [Stderr ''Unable to open display %s''], Inl (Exited (- 1)))
        else
          (let out3 = out1 @ out2 @ [Stdout ''glthreads: creating windows''] in
           case create_windows e opts dpy 0 [] of
             Inl (out, x) \<Rightarrow> (out3 @ out, Inl x)
           | Inr wts \<Rightarrow>
               (out3 @ [Stdout ''glthreads: creating threads''] @
                  map (\<lambda>wt. Stdout ''glthreads: Created thread %p'') wts,
                Inr (\<lparr>MultiDisplays = MultiDisplays opts, Locking = Locking opts,
                       Texture = Texture opts, Animate = Animate opts,
                       WinThreads = create_threads e wts, ExitFlag = False, Mutex = False,
                       DpyLock = False, CondMutex = False, step = 0, TexWidth = 0,
                       pcs = replicate (length wts) P_while, aborted = False, trace = []\<rparr>,
                     dpy))))"

text \<open>The calls of the shutdown path.\<close>

datatype syscall =
    pthread_join handle
  | glXDestroyContext handle handle
  | XDestroyWindow handle handle
  | XCloseDisplay handle

text \<open>The two loops of \<open>clean_up()\<close> and the closing loop of \<open>main\<close>, from \<open>i\<close> on.\<close>

function join_loop :: "state \<Rightarrow> nat \<Rightarrow> syscall list" where
  "join_loop s i =
    (if i < NumWinThreads s then pthread_join (Thread (WinThreads s ! i)) # join_loop s (i + 1)
     else [])"
  by pat_completeness auto
termination
  by (relation "measure (\<lambda>(s, i). NumWinThreads s - i)") auto

function destroy_loop :: "state \<Rightarrow> nat \<Rightarrow> syscall list" where
  "destroy_loop s i =
    (if i < NumWinThreads s then
       glXDestroyContext (Dpy (WinThreads s ! i)) (Context (WinThreads s ! i)) #
       XDestroyWindow (Dpy (WinThreads s ! i)) (Win (WinThreads s ! i)) #
       destroy_loop s (i + 1)
     else [])"
  by pat_completeness auto
termination
  by (relation "measure (\<lambda>(s, i). NumWinThreads s - i)") auto

function close_loop :: "state \<Rightarrow> nat \<Rightarrow> syscall list" where
  "close_loop s i =
    (if i < NumWinThreads s then XCloseDisplay (Dpy (WinThreads s ! i)) # close_loop s (i + 1)
     else [])"
  by pat_completeness auto
termination
  by (relation "measure (\<lambda>(s, i). NumWinThreads s - i)") auto

declare join_loop.simps [simp del] destroy_loop.simps [simp del] close_loop.simps [simp del]

definition clean_up :: "state \<Rightarrow> syscall list" where
  "clean_up s = join_loop s 0 @ destroy_loop s 0"

text \<open>\<open>main\<close> from \<open>clean_up()\<close> to \<open>return 0\<close>; \<open>dpy\<close> is the shared connection.\<close>

definition shut_down :: "state \<Rightarrow> handle \<Rightarrow> syscall list \<times> outcome" where
  "shut_down s dpy =
    (clean_up s @ (if MultiDisplays s then close_loop s 0 else [XCloseDisplay dpy]), Exited 0)"

text \<open>
  \<open>main\<close>.  The interleaving \<open>sch\<close> of the render threads with the operations of the event
  loop is an input.  The event loop returns once \<open>ExitFlag\<close> is set and every
  \<open>pthread_join\<close> returns once every thread has left \<open>draw_loop\<close>: an interleaving that
  does not get there gives \<open>None\<close>, the process is still running at its end.  The result is
  what was printed, the calls of the shutdown path and how the process ended.
\<close>

definition main ::
  "(string \<Rightarrow> int) \<Rightarrow> env \<Rightarrow> string list \<Rightarrow> action list \<Rightarrow>
   (printed list \<times> syscall list \<times> outcome) option" where
  "main atoi e args sch =
    (case parse_args atoi args of
       (out, Inl x) \<Rightarrow> Some (out, [], x)
     | (out, Inr opts) \<Rightarrow>
         (case start_up e opts of
            (out', Inl x) \<Rightarrow> Some (out @ out', [], x)
          | (out', Inr (s0, dpy)) \<Rightarrow>
              (let s = run sch s0 in
               if aborted s then Some (out @ out', [], Aborted)
               else if ExitFlag s \<and> list_all (\<lambda>p. p = P_done) (pcs s) then
                 (case shut_down s dpy of (calls, x) \<Rightarrow> Some (out @ out', calls, x))
               else None)))"

section \<open>A concrete run\<close>

text \<open>
  A run in which every library call of the start-up succeeds: connection 1 (or \<open>1 + i\<close>
  with \<open>-p\<close>), windows \<open>10 + i\<close>, contexts \<open>20 + i\<close>, threads \<open>30 + i\<close>.
\<close>

definition good_env :: env where
  "good_env =
    \<lparr>XOpenDisplay_ret = (\<lambda>k. 1 + k), glXChooseVisual_ok = (\<lambda>i. True),
     XCreateWindow_ret = (\<lambda>i. 10 + i), glXCreateContext_ret = (\<lambda>i. 20 + i),
     pthread_mutex_init_ret = (\<lambda>i. 0), pthread_mutex_lock_ret = (\<lambda>i. 0),
     pthread_create_id = (\<lambda>i. 30 + i), XInitThreads_ret = 1\<rparr>"

text \<open>The unit \<open>i\<close> and the state that the start-up reaches with no argument in that
  run (see \<open>start_up_good_env\<close> below), and the same state in step mode.  Step mode is
  \<open>Animate = GL_FALSE\<close>, the case that the tests \<open>if (!Animate)\<close> of \<open>resize\<close>, \<open>keypress\<close>
  and \<open>draw_loop\<close> are written for.  The source initialises \<open>Animate\<close> to \<open>GL_TRUE\<close> and
  its only assignment is compiled out (\<open>#if 0\<close> in \<open>keypress\<close>), so no command line and no
  event leads there (\<open>Animate_parse_args\<close>, \<open>Animate_run\<close> below).\<close>

definition fresh_unit :: "nat \<Rightarrow> winthread" where
  "fresh_unit i =
    \<lparr>Dpy = 1, Index = i, Thread = 30 + i, Ready = True, Win = 10 + i, Context = 20 + i,
     AngleX = Angle_zero, AngleY = Angle_zero, WinWidth = 700, WinHeight = 700,
     NewSize = True,
     Initialized = False, MakeNewTexture_flag = False, MotionStartX = 0, MotionStartY = 0\<rparr>"

definition fresh_state :: state where
  "fresh_state =
    \<lparr>MultiDisplays = False, Locking = False, Texture = False, Animate = True,
     WinThreads = [fresh_unit 0, fresh_unit 1], ExitFlag = False, Mutex = False,
     DpyLock = False, CondMutex = False, step = 0, TexWidth = 0,
     pcs = [P_while, P_while], aborted = False, trace = []\<rparr>"

definition step_mode_state :: state where
  "step_mode_state = fresh_state\<lparr>Animate := False\<rparr>"

section \<open>Reading a list of calls\<close>

text \<open>The three kinds of call on the shutdown path.\<close>

definition is_join :: "syscall \<Rightarrow> bool" where
  "is_join c = (case c of pthread_join t \<Rightarrow> True | _ \<Rightarrow> False)"

definition is_destroy :: "syscall \<Rightarrow> bool" where
  "is_destroy c =
    (case c of glXDestroyContext d x \<Rightarrow> True | XDestroyWindow d w \<Rightarrow> True | _ \<Rightarrow> False)"

definition is_close :: "syscall \<Rightarrow> bool" where
  "is_close c = (case c of XCloseDisplay d \<Rightarrow> True | _ \<Rightarrow> False)"

text \<open>\<open>precedes P Q xs\<close>: in \<open>xs\<close> every element with \<open>P\<close> comes before every element with
  \<open>Q\<close>, that is, no \<open>P\<close> follows a \<open>Q\<close>.\<close>

fun precedes :: "('a \<Rightarrow> bool) \<Rightarrow> ('a \<Rightarrow> bool) \<Rightarrow> 'a list \<Rightarrow> bool" where
  "precedes P Q [] = True"
| "precedes P Q (x # xs) = ((Q x \<longrightarrow> \<not> list_ex P xs) \<and> precedes P Q xs)"

text \<open>The calls of the three loops of the shutdown path in closed form.\<close>

definition joins :: "state \<Rightarrow> syscall list" where
  "joins s = map (\<lambda>k. pthread_join (Thread (WinThreads s ! k))) [0..<NumWinThreads s]"

definition destroys :: "state \<Rightarrow> syscall list" where
  "destroys s =
    concat (map (\<lambda>k. [glXDestroyContext (Dpy (WinThreads s ! k)) (Context (WinThreads s ! k)),
                        XDestroyWindow (Dpy (WinThreads s ! k)) (Win (WinThreads s ! k))])
               [0..<NumWinThreads s])"

definition closes :: "state \<Rightarrow> handle \<Rightarrow> syscall list" where
  "closes s dpy =
    (if MultiDisplays s
     then map (\<lambda>k. XCloseDisplay (Dpy (WinThreads s ! k))) [0..<NumWinThreads s]
     else [XCloseDisplay dpy])"

text \<open>Every call that \<open>create_window\<close> checks succeeds for unit \<open>i\<close>.\<close>

definition unit_ok :: "env \<Rightarrow> nat \<Rightarrow> bool" where
  "unit_ok e i =
    (glXChooseVisual_ok e i \<and> XCreateWindow_ret e i \<noteq> 0 \<and> glXCreateContext_ret e i \<noteq> 0 \<and>
     pthread_mutex_init_ret e i \<noteq> - 1 \<and> pthread_mutex_lock_ret e i \<noteq> - 1)"

text \<open>Runs in which no connection can be opened, and in which unit 1 finds no visual.\<close>

definition no_display_env :: env where
  "no_display_env = good_env\<lparr>XOpenDisplay_ret := (\<lambda>k. 0)\<rparr>"

definition no_visual_env :: env where
  "no_visual_env = good_env\<lparr>glXChooseVisual_ok := (\<lambda>i. i \<noteq> 1)\<rparr>"

text \<open>
  An interleaving of the concrete run: window 10 is exposed, the thread of unit 0 renders
  one frame, the exit key is pressed in window 11, both threads run to their end.
\<close>

definition exit_schedule :: "action list" where
  "exit_schedule =
    map Main_op (dispatch fresh_state (Expose 10)) @
    [Unit_step 0, Unit_step 0, Unit_step 0, Unit_step 0, Unit_step 0, Unit_step 0, Unit_step 0,
     Unit_step 0, Unit_step 0, Unit_step 0, Unit_step 0, Unit_step 0, Unit_step 0] @
    map Main_op (dispatch fresh_state (KeyPress 11 XK_Escape)) @
    [Unit_step 0, Unit_step 1]"

text \<open>The buffer swaps of unit \<open>i\<close> in a history.\<close>

definition is_present :: "nat \<Rightarrow> event \<Rightarrow> bool" where
  "is_present i e =
    (case e of
       Unit j c \<Rightarrow> j = i \<and> (case c of glXSwapBuffers d w \<Rightarrow> True | _ \<Rightarrow> False)
     | Main d \<Rightarrow> False)"

text \<open>
  The gate of unit \<open>i\<close> read off a history.  The reading is a pair: whether the gate is
  open (released and not acquired since), and whether the unit holds an acquisition that
  it has not yet used for a present.  A release opens the gate; an acquisition needs an
  open gate and closes it; a present needs an unused acquisition and uses it.  \<open>None\<close>
  means that some acquisition or present of the history came without what it needs.
\<close>

definition gate_event :: "nat \<Rightarrow> (bool \<times> bool) option \<Rightarrow> event \<Rightarrow> (bool \<times> bool) option" where
  "gate_event i st e =
    (case st of
       None \<Rightarrow> None
     | Some (opn, held) \<Rightarrow>
         if e = Main (Unlock_Ready i) then Some (True, held)
         else if e = Unit i pthread_mutex_lock_Ready then
           (if opn then Some (False, True) else None)
         else if is_present i e then (if held then Some (opn, False) else None)
         else Some (opn, held))"

definition gate_log :: "nat \<Rightarrow> event list \<Rightarrow> (bool \<times> bool) option" where
  "gate_log i tr = foldl (gate_event i) (Some (False, False)) tr"

definition gate_ok :: "nat \<Rightarrow> event list \<Rightarrow> bool" where
  "gate_ok i tr = (gate_log i tr \<noteq> None)"

text \<open>The control points of an iteration after the gate and up to the present.\<close>

definition in_frame :: "pc \<Rightarrow> bool" where
  "in_frame p =
    (case p of
       P_check \<Rightarrow> True | P_LOCK1 \<Rightarrow> True | P_current \<Rightarrow> True
     | P_MakeNewTexture site m \<Rightarrow> True | P_UNLOCK1 \<Rightarrow> True | P_newsize \<Rightarrow> True
     | P_texture \<Rightarrow> True | P_draw \<Rightarrow> True | P_LOCK2 \<Rightarrow> True | P_swap \<Rightarrow> True
     | _ \<Rightarrow> False)"

text \<open>The history of the gate of unit \<open>i\<close> agrees with the state.\<close>

definition gate_inv :: "nat \<Rightarrow> state \<Rightarrow> bool" where
  "gate_inv i s =
    (case gate_log i (trace s) of
       None \<Rightarrow> False
     | Some (opn, held) \<Rightarrow>
         opn = (\<not> Ready (WinThreads s ! i)) \<and> (in_frame (pcs s ! i) \<longrightarrow> held))"

text \<open>
  The claim read literally: \<open>released_since_present i rel tr\<close> says that in \<open>tr\<close> every
  present of unit \<open>i\<close> has a release of its gate between it and the present before (\<open>rel\<close>:
  a release has been seen since the last present).
\<close>

fun released_since_present :: "nat \<Rightarrow> bool \<Rightarrow> event list \<Rightarrow> bool" where
  "released_since_present i rel [] = True"
| "released_since_present i rel (e # es) =
    (if e = Main (Unlock_Ready i) then released_since_present i True es
     else if is_present i e then rel \<and> released_since_present i False es
     else released_since_present i rel es)"

text \<open>The releases, acquisitions and presents of the gate of unit \<open>i\<close> in a history.\<close>

definition gate_events :: "nat \<Rightarrow> event list \<Rightarrow> event list" where
  "gate_events i tr =
    filter (\<lambda>e. e = Main (Unlock_Ready i) \<or> e = Unit i pthread_mutex_lock_Ready \<or>
                is_present i e) tr"

text \<open>The control points between a present and the next acquisition of the gate.\<close>

definition waiting :: "pc \<Rightarrow> bool" where
  "waiting p = (p \<in> {P_pace, P_wait, P_woken, P_while, P_lock_Ready})"

text \<open>The GLX and OpenGL calls: everything a thread does to draw or present.\<close>

definition is_render :: "call \<Rightarrow> bool" where
  "is_render c =
    (case c of
       pthread_mutex_lock_Ready \<Rightarrow> False
     | LOCK d \<Rightarrow> False
     | UNLOCK d \<Rightarrow> False
     | usleep n \<Rightarrow> False
     | pthread_cond_wait \<Rightarrow> False
     | _ \<Rightarrow> True)"

definition renders :: "nat \<Rightarrow> event list \<Rightarrow> event list" where
  "renders i tr =
    filter (\<lambda>e. case e of Unit j c \<Rightarrow> j = i \<and> is_render c | Main d \<Rightarrow> False) tr"

text \<open>
  \<open>shutdown_releases i sch s\<close>: along the interleaving \<open>sch\<close> played from \<open>s\<close>, the gate of
  unit \<open>i\<close> is released only in states in which \<open>ExitFlag\<close> is set.
\<close>

fun shutdown_releases :: "nat \<Rightarrow> action list \<Rightarrow> state \<Rightarrow> bool" where
  "shutdown_releases i [] s = True"
| "shutdown_releases i (a # sch) s =
    ((a = Main_op (Unlock_Ready i) \<longrightarrow> ExitFlag s) \<and> shutdown_releases i sch (perform a s))"

text \<open>Unit \<open>i\<close> will not draw again: it has returned, or it is before its gate and the
  gate is closed or the exit flag set, or it is at the test after the gate with the exit
  flag set.\<close>

definition exit_inv :: "nat \<Rightarrow> state \<Rightarrow> bool" where
  "exit_inv i s =
    (pcs s ! i = P_done \<or>
     (waiting (pcs s ! i) \<and> (ExitFlag s \<or> Ready (WinThreads s ! i))) \<or>
     (pcs s ! i = P_check \<and> ExitFlag s))"

text \<open>The state that the start-up reaches with \<open>-t\<close> in the concrete run (see
  \<open>texture_start\<close> below).\<close>

definition texture_state :: state where
  "texture_state = fresh_state\<lparr>Texture := True\<rparr>"

text \<open>
  Both windows are exposed; the thread of unit 0 draws its first frame, with the first
  regeneration in the first-frame block (16385 steps in the two loops); then the thread
  of unit 1 does the same.
\<close>

definition first_frames :: "action list" where
  "first_frames =
    map Main_op (dispatch texture_state (Expose 10)) @
    map Main_op (dispatch texture_state (Expose 11)) @
    [Unit_step 0, Unit_step 0, Unit_step 0, Unit_step 0, Unit_step 0] @
    replicate 16385 (Unit_step 0) @
    [Unit_step 0, Unit_step 0, Unit_step 0, Unit_step 0, Unit_step 0, Unit_step 0,
     Unit_step 0, Unit_step 0, Unit_step 0, Unit_step 0, Unit_step 0, Unit_step 0,
     Unit_step 0, Unit_step 0, Unit_step 0, Unit_step 0] @
    [Unit_step 1, Unit_step 1, Unit_step 1, Unit_step 1, Unit_step 1] @
    replicate 16385 (Unit_step 1) @
    [Unit_step 1, Unit_step 1, Unit_step 1, Unit_step 1, Unit_step 1, Unit_step 1,
     Unit_step 1, Unit_step 1, Unit_step 1, Unit_step 1, Unit_step 1, Unit_step 1,
     Unit_step 1, Unit_step 1]"

text \<open>
  The texture key is pressed in both windows and both are exposed.  The thread of unit 0
  comes to the call of line 298, builds its image and reads \<open>step\<close>.  The thread of unit 1
  regenerates and finishes its frame; after another press of the key and another exposure
  of its window it comes to the call again, builds its image, reads \<open>step\<close> and stores the
  sum.
\<close>

definition overlapping_requests :: "action list" where
  "overlapping_requests =
    map Main_op (dispatch texture_state (KeyPress 10 XK_t)) @
    map Main_op (dispatch texture_state (KeyPress 11 XK_t)) @
    map Main_op (dispatch texture_state (Expose 10)) @
    map Main_op (dispatch texture_state (Expose 11)) @
    [Unit_step 0, Unit_step 0, Unit_step 0, Unit_step 0, Unit_step 0, Unit_step 0, Unit_step 0, Unit_step 0] @
    replicate 16385 (Unit_step 0) @
    [Unit_step 0] @
    [Unit_step 1, Unit_step 1, Unit_step 1, Unit_step 1, Unit_step 1, Unit_step 1, Unit_step 1, Unit_step 1] @
    replicate 16385 (Unit_step 1) @
    [Unit_step 1, Unit_step 1, Unit_step 1, Unit_step 1, Unit_step 1, Unit_step 1, Unit_step 1, Unit_step 1, Unit_step 1, Unit_step 1, Unit_step 1] @
    map Main_op (dispatch texture_state (KeyPress 11 XK_t)) @
    map Main_op (dispatch texture_state (Expose 11)) @
    [Unit_step 1, Unit_step 1, Unit_step 1, Unit_step 1, Unit_step 1, Unit_step 1, Unit_step 1, Unit_step 1] @
    replicate 16385 (Unit_step 1) @
    [Unit_step 1, Unit_step 1]"

text \<open>
  An interleaving of the concrete run with two exposures of window 10: the second one
  arrives while the thread of unit 0 is inside its first frame, and the thread draws and
  presents a second frame with no event after its first present.
\<close>

definition double_expose_schedule :: "action list" where
  "double_expose_schedule =
    map Main_op (dispatch fresh_state (Expose 10)) @
    [Unit_step 0, Unit_step 0, Unit_step 0] @
    map Main_op (dispatch fresh_state (Expose 10)) @
    [Unit_step 0, Unit_step 0, Unit_step 0, Unit_step 0, Unit_step 0, Unit_step 0, Unit_step 0, Unit_step 0, Unit_step 0, Unit_step 0] @
    [Unit_step 0, Unit_step 0, Unit_step 0, Unit_step 0, Unit_step 0, Unit_step 0, Unit_step 0, Unit_step 0, Unit_step 0, Unit_step 0, Unit_step 0, Unit_step 0, Unit_step 0]"

text \<open>The numbers of presents of unit \<open>i\<close> and of releases of its gate in a history.\<close>

definition presents :: "nat \<Rightarrow> event list \<Rightarrow> nat" where
  "presents i tr = length (filter (is_present i) tr)"

definition releases :: "nat \<Rightarrow> event list \<Rightarrow> nat" where
  "releases i tr = length (filter (\<lambda>e. e = Main (Unlock_Ready i)) tr)"

definition acquisitions :: "nat \<Rightarrow> event list \<Rightarrow> nat" where
  "acquisitions i tr = length (filter (\<lambda>e. e = Unit i pthread_mutex_lock_Ready) tr)"

text \<open>
  An interleaving of the concrete run: the thread of unit 0 comes to its gate and blocks
  there; then the exit key is pressed in window 11.
\<close>

definition shutdown_schedule :: "action list" where
  "shutdown_schedule =
    [Unit_step 0, Unit_step 0] @ map Main_op (dispatch fresh_state (KeyPress 11 XK_Escape))"



section \<open>Theorems\<close>

lemma parse_loop_append:
  "parse_loop atoi opts pre = Inr opts' \<Longrightarrow>
   parse_loop atoi opts (pre @ xs) = parse_loop atoi opts' xs"
proof (induction atoi opts pre rule: parse_loop.induct)
  case (1 atoi opts)
  then show ?case by simp
next
  case (2 atoi opts a rest)
  then show ?case
    by (cases rest) (auto split: if_splits)
qed

text \<open>
  Claim C7.  For every string \<open>s\<close> given to \<open>-n\<close>, the thread count is the value \<open>atoi\<close>
  parses from \<open>s\<close> clamped into \<open>[1, 100]\<close>: a parsed value below 1 (0, a negative value, a
  non-numeric string that parses to 0) gives 1, a value above 100 gives 100.
\<close>

theorem thread_count_clamped:
  "\<exists>opts. parse_args atoi [''-n'', s] = ([], Inr opts) \<and>
     numThreads opts = max 1 (min 100 (atoi s)) \<and>
     1 \<le> numThreads opts \<and> numThreads opts \<le> 100 \<and>
     (atoi s < 1 \<longrightarrow> numThreads opts = 1) \<and>
     (atoi s > 100 \<longrightarrow> numThreads opts = 100) \<and>
     (1 \<le> atoi s \<and> atoi s \<le> 100 \<longrightarrow> numThreads opts = atoi s)"
  by (simp add: parse_args_def MAX_WINTHREADS_def Let_def)

theorem thread_count_clamped_witness:
  "atoi_c ''0'' < 1 \<and> atoi_c ''-7'' < 1 \<and> atoi_c ''abc'' < 1 \<and> atoi_c ''1000'' > 100 \<and>
   1 \<le> atoi_c ''3'' \<and> atoi_c ''3'' \<le> 100 \<and>
   (\<exists>opts. parse_args atoi_c [''-n'', ''0''] = ([], Inr opts) \<and> numThreads opts = 1) \<and>
   (\<exists>opts. parse_args atoi_c [''-n'', ''-7''] = ([], Inr opts) \<and> numThreads opts = 1) \<and>
   (\<exists>opts. parse_args atoi_c [''-n'', ''abc''] = ([], Inr opts) \<and> numThreads opts = 1) \<and>
   (\<exists>opts. parse_args atoi_c [''-n'', ''1000''] = ([], Inr opts) \<and> numThreads opts = 100) \<and>
   (\<exists>opts. parse_args atoi_c [''-n'', ''3''] = ([], Inr opts) \<and> numThreads opts = 3)"
proof -
  have v: "atoi_c ''0'' = 0" "atoi_c ''-7'' = - 7" "atoi_c ''abc'' = 0"
    "atoi_c ''1000'' = 1000" "atoi_c ''3'' = 3"
    by (simp_all add: atoi_c_def strtol_def isspace_def isdigit_def)
  show ?thesis
    using thread_count_clamped [of atoi_c "''0''"] thread_count_clamped [of atoi_c "''-7''"]
      thread_count_clamped [of atoi_c "''abc''"] thread_count_clamped [of atoi_c "''1000''"]
      thread_count_clamped [of atoi_c "''3''"]
    unfolding v by auto
qed

text \<open>
  Claim C8.  With no argument the usage message is printed and the run goes on with the
  defaults: 2 threads, one shared connection, native display locking, no texturing.  An
  argument that is none of the flags, met where a flag is expected (after a prefix of
  complete flags), prints the usage message and exits with status 1.
\<close>

theorem no_args_defaults_bad_flag_exits:
  "(\<exists>opts. parse_args atoi [] = (usage, Inr opts) \<and>
      numThreads opts = 2 \<and> \<not> MultiDisplays opts \<and> \<not> Locking opts \<and> \<not> Texture opts \<and>
      lock_discipline opts = NativeDisplayLock) \<and>
   (parse_loop atoi initial_options pre = Inr opts' \<and>
    a \<notin> {''-display'', ''-p'', ''-l'', ''-t'', ''-n''} \<longrightarrow>
      parse_args atoi (pre @ a # post) = (usage, Inl (Exited 1)) \<and> (1::int) \<noteq> 0)"
proof -
  have "parse_args atoi (pre @ a # post) = (usage, Inl (Exited 1))"
    if p: "parse_loop atoi initial_options pre = Inr opts'"
      and a: "a \<notin> {''-display'', ''-p'', ''-l'', ''-t'', ''-n''}"
  proof -
    have "parse_loop atoi initial_options (pre @ a # post) = parse_loop atoi opts' (a # post)"
      using p by (rule parse_loop_append)
    also have "\<dots> = Inl (usage, Exited 1)"
      using a by simp
    finally show ?thesis
      by (simp add: parse_args_def)
  qed
  then show ?thesis
    by (simp add: parse_args_def initial_options_def lock_discipline_def)
qed

theorem no_args_defaults_bad_flag_exits_witness:
  "parse_loop atoi_c initial_options [''-t'', ''-n'', ''3''] =
     Inr (initial_options\<lparr>Texture := True, numThreads := 3\<rparr>) \<and>
   ''-x'' \<notin> {''-display'', ''-p'', ''-l'', ''-t'', ''-n''} \<and>
   parse_args atoi_c ([''-t'', ''-n'', ''3''] @ ''-x'' # [''-p'']) = (usage, Inl (Exited 1))"
proof -
  have v: "atoi_c ''3'' = 3"
    by (simp add: atoi_c_def strtol_def isspace_def isdigit_def)
  have p: "parse_loop atoi_c initial_options [''-t'', ''-n'', ''3''] =
     Inr (initial_options\<lparr>Texture := True, numThreads := 3\<rparr>)"
    by (simp add: v MAX_WINTHREADS_def)
  have a: "''-x'' \<notin> {''-display'', ''-p'', ''-l'', ''-t'', ''-n''}"
    by simp
  show ?thesis
    using no_args_defaults_bad_flag_exits
      [of atoi_c "[''-t'', ''-n'', ''3'']" "initial_options\<lparr>Texture := True, numThreads := 3\<rparr>"
        "''-x''" "[''-p'']"] p a
    by simp
qed

lemma unlock_loop_eq: "unlock_loop i n = map Unlock_Ready [i..<n]"
proof (induction i n rule: unlock_loop.induct)
  case (1 i n)
  show ?case
  proof (cases "i < n")
    case True
    then show ?thesis
      using 1 by (subst unlock_loop.simps) (simp add: upt_conv_Cons)
  next
    case False
    then show ?thesis
      by (subst unlock_loop.simps) simp
  qed
qed

lemma aborted_exec_dop [simp]: "aborted (exec_dop d s) = aborted s"
  by (cases d) (simp_all add: upd_wt_def)

lemma aborted_main_step [simp]: "aborted (main_step d s) = aborted s"
  by (simp add: main_step_def log_def)

lemma main_steps_Nil: "main_steps [] s = s"
  by (simp add: main_steps_def)

lemma main_steps_Cons: "main_steps (d # ds) s = main_steps ds (main_step d s)"
  by (simp add: main_steps_def)

lemma main_steps_append: "main_steps (ds @ es) s = main_steps es (main_steps ds s)"
  by (simp add: main_steps_def)

lemmas main_steps_simps = main_steps_Nil main_steps_Cons

lemma aborted_main_steps [simp]: "aborted (main_steps ds s) = aborted s"
  by (induction ds arbitrary: s) (simp_all add: main_steps_simps)

lemma trace_exec_dop [simp]: "trace (exec_dop d s) = trace s"
  by (cases d) (simp_all add: upd_wt_def)

lemma trace_main_steps:
  "\<not> aborted s \<Longrightarrow> trace (main_steps ds s) = trace s @ map Main ds"
  by (induction ds arbitrary: s) (simp_all add: main_steps_simps main_step_def log_def)

lemma length_WinThreads_exec_dop [simp]:
  "length (WinThreads (exec_dop d s)) = length (WinThreads s)"
  by (cases d) (simp_all add: upd_wt_def)

lemma length_WinThreads_main_step [simp]:
  "length (WinThreads (main_step d s)) = length (WinThreads s)"
  by (simp add: main_step_def log_def)

lemma length_WinThreads_main_steps [simp]:
  "length (WinThreads (main_steps ds s)) = length (WinThreads s)"
  by (induction ds arbitrary: s) (simp_all add: main_steps_simps)

lemma ExitFlag_exec_dop: "ExitFlag (exec_dop d s) = (ExitFlag s \<or> d = Set_ExitFlag)"
  by (cases d) (simp_all add: upd_wt_def)

lemma ExitFlag_main_steps:
  "\<not> aborted s \<Longrightarrow> ExitFlag (main_steps ds s) = (ExitFlag s \<or> Set_ExitFlag \<in> set ds)"
  by (induction ds arbitrary: s) (auto simp: main_steps_simps main_step_def log_def ExitFlag_exec_dop)

lemma nth_upd_same:
  "j < length xs \<Longrightarrow> (xs[i := f (xs ! i)]) ! j = (if i = j then f (xs ! j) else xs ! j)"
  by (cases "i = j") simp_all

lemma Ready_exec_dop:
  "j < length (WinThreads s) \<Longrightarrow>
   Ready (WinThreads (exec_dop d s) ! j) = (Ready (WinThreads s ! j) \<and> d \<noteq> Unlock_Ready j)"
  by (cases d) (auto simp: upd_wt_def nth_upd_same)

lemma Ready_main_steps:
  "\<not> aborted s \<Longrightarrow> j < length (WinThreads s) \<Longrightarrow>
   Ready (WinThreads (main_steps ds s) ! j) =
     (Ready (WinThreads s ! j) \<and> Unlock_Ready j \<notin> set ds)"
  by (induction ds arbitrary: s) (auto simp: main_steps_simps main_step_def log_def Ready_exec_dop)

text \<open>
  Claim C1.  The handler of the exit key does this and nothing else: in step mode it locks
  \<open>CondMutex\<close>, broadcasts the redraw signal and unlocks \<open>CondMutex\<close>; then it sets
  \<open>ExitFlag\<close>; then it unlocks the gate of each of the \<open>NumWinThreads\<close> units, in order.
  Afterwards \<open>ExitFlag\<close> is set, every gate is open, and the history has grown by these
  operations of the main thread only: no call of a render unit, hence no drawing call.
\<close>

theorem escape_key_effects:
  "keypress s XK_Escape i =
     (if \<not> Animate s then [Lock_CondMutex, Cond_broadcast, Unlock_CondMutex] else []) @
     [Set_ExitFlag] @ map Unlock_Ready [0..<NumWinThreads s] \<and>
   (\<not> aborted s \<longrightarrow>
      ExitFlag (main_steps (keypress s XK_Escape i) s) \<and>
      (\<forall>j < NumWinThreads s. \<not> Ready (WinThreads (main_steps (keypress s XK_Escape i) s) ! j)) \<and>
      trace (main_steps (keypress s XK_Escape i) s) =
        trace s @ map Main (keypress s XK_Escape i))"
proof -
  have k: "keypress s XK_Escape i =
     (if \<not> Animate s then [Lock_CondMutex, Cond_broadcast, Unlock_CondMutex] else []) @
     [Set_ExitFlag] @ map Unlock_Ready [0..<NumWinThreads s]"
    by (simp add: keypress_def signal_redraw_def unlock_loop_eq)
  have "ExitFlag (main_steps (keypress s XK_Escape i) s)" if "\<not> aborted s"
    using that by (simp add: ExitFlag_main_steps k)
  moreover have "\<not> Ready (WinThreads (main_steps (keypress s XK_Escape i) s) ! j)"
    if "\<not> aborted s" "j < NumWinThreads s" for j
    using that by (simp add: Ready_main_steps NumWinThreads_def k)
  ultimately show ?thesis
    using k trace_main_steps by blast
qed

theorem escape_key_effects_witness:
  "\<not> aborted step_mode_state \<and> 1 < NumWinThreads step_mode_state \<and>
   keypress step_mode_state XK_Escape 0 =
     [Lock_CondMutex, Cond_broadcast, Unlock_CondMutex, Set_ExitFlag,
      Unlock_Ready 0, Unlock_Ready 1] \<and>
   ExitFlag (main_steps (keypress step_mode_state XK_Escape 0) step_mode_state) \<and>
   \<not> Ready (WinThreads (main_steps (keypress step_mode_state XK_Escape 0) step_mode_state) ! 1) \<and>
   trace (main_steps (keypress step_mode_state XK_Escape 0) step_mode_state) =
     [Main Lock_CondMutex, Main Cond_broadcast, Main Unlock_CondMutex, Main Set_ExitFlag,
      Main (Unlock_Ready 0), Main (Unlock_Ready 1)]"
proof -
  have h1: "\<not> aborted step_mode_state"
    by (simp add: step_mode_state_def fresh_state_def)
  have h2: "1 < NumWinThreads step_mode_state"
    by (simp add: step_mode_state_def fresh_state_def NumWinThreads_def)
  have n: "NumWinThreads step_mode_state = 2" "\<not> Animate step_mode_state"
    "trace step_mode_state = []"
    by (simp_all add: step_mode_state_def fresh_state_def NumWinThreads_def)
  have u: "[0..<2] = [0, 1]"
    by (simp add: upt_rec)
  note e = escape_key_effects [of step_mode_state 0]
  have k: "keypress step_mode_state XK_Escape 0 =
     [Lock_CondMutex, Cond_broadcast, Unlock_CondMutex, Set_ExitFlag,
      Unlock_Ready 0, Unlock_Ready 1]"
    using e [THEN conjunct1] by (simp add: n u)
  note c = e [THEN conjunct2, THEN mp, OF h1]
  note c1 = c [THEN conjunct1]
  note c2 = c [THEN conjunct2, THEN conjunct1, rule_format, OF h2]
  have c3: "trace (main_steps (keypress step_mode_state XK_Escape 0) step_mode_state) =
     [Main Lock_CondMutex, Main Cond_broadcast, Main Unlock_CondMutex, Main Set_ExitFlag,
      Main (Unlock_Ready 0), Main (Unlock_Ready 1)]"
    using c [THEN conjunct2, THEN conjunct2] by (simp add: k n)
  show ?thesis
    by (intro conjI h1 h2 k c1 c2 c3)
qed

lemma find_winthread_first:
  "k \<le> i \<Longrightarrow> i < length wts \<Longrightarrow> Win (wts ! i) = w \<Longrightarrow>
   \<forall>j. k \<le> j \<and> j < i \<longrightarrow> Win (wts ! j) \<noteq> w \<Longrightarrow>
   find_winthread wts w k = Some i"
proof (induction wts w k rule: find_winthread.induct)
  case (1 wts w k)
  show ?case
  proof (cases "k = i")
    case True
    then show ?thesis
      using "1.prems" by (subst find_winthread.simps) simp
  next
    case False
    then have k: "k < i" "k < length wts"
      using "1.prems" by auto
    then have n: "w \<noteq> Win (wts ! k)"
      using "1.prems" by auto
    have "find_winthread wts w (k + 1) = Some i"
      using "1.IH" [OF k(2) n] k "1.prems" by simp
    then show ?thesis
      using k n by (subst find_winthread.simps) simp
  qed
qed

lemma distinct_Win:
  "distinct (map Win wts) \<Longrightarrow> i < length wts \<Longrightarrow> j < length wts \<Longrightarrow>
   Win (wts ! i) = Win (wts ! j) \<Longrightarrow> i = j"
  using nth_eq_iff_index_eq [of "map Win wts" i j] by simp

lemma find_winthread_distinct:
  assumes "distinct (map Win wts)" "i < length wts" "Win (wts ! i) = w"
  shows "find_winthread wts w 0 = Some i"
proof (rule find_winthread_first)
  show "\<forall>j. 0 \<le> j \<and> j < i \<longrightarrow> Win (wts ! j) \<noteq> w"
  proof (intro allI impI)
    fix j assume j: "0 \<le> j \<and> j < i"
    show "Win (wts ! j) \<noteq> w"
    proof
      assume "Win (wts ! j) = w"
      then have "i = j"
        using assms j by (intro distinct_Win [of wts i j]) simp_all
      then show False using j by simp
    qed
  qed
qed (use assms in simp_all)

lemma WinThreads_resize:
  assumes "\<not> aborted s" "i < length (WinThreads s)"
  shows "WinThreads (main_steps (resize s i w h @ [Unlock_Ready i]) s) =
    (WinThreads s)[i := (WinThreads s ! i)\<lparr>NewSize := True, WinWidth := w, WinHeight := h,
       Ready := False\<rparr>]"
  using assms
  by (simp add: resize_def signal_redraw_def main_steps_def main_step_def log_def upd_wt_def)

text \<open>
  Claim C6.  A \<open>ConfigureNotify\<close> for window \<open>W\<close>, with window handles distinct, changes
  the array of units at the one index \<open>i\<close> whose window is \<open>W\<close>: that unit gets the new
  width and height, its \<open>NewSize\<close> flag set and its gate released.  No other unit has this
  window, every other unit is unchanged, and a \<open>NewSize\<close> flag that was clear stays clear.
\<close>

theorem resize_changes_only_its_unit:
  assumes "\<not> aborted s" and "i < NumWinThreads s" and "Win (WinThreads s ! i) = W"
    and "distinct (map Win (WinThreads s))"
  shows "WinThreads (main_steps (dispatch s (ConfigureNotify W w h)) s) =
      (WinThreads s)[i := (WinThreads s ! i)\<lparr>NewSize := True, WinWidth := w, WinHeight := h,
         Ready := False\<rparr>] \<and>
    (\<forall>j < NumWinThreads s. j \<noteq> i \<longrightarrow>
       Win (WinThreads s ! j) \<noteq> W \<and>
       WinThreads (main_steps (dispatch s (ConfigureNotify W w h)) s) ! j = WinThreads s ! j \<and>
       (\<not> NewSize (WinThreads s ! j) \<longrightarrow>
        \<not> NewSize (WinThreads (main_steps (dispatch s (ConfigureNotify W w h)) s) ! j)))"
proof -
  have i: "i < length (WinThreads s)"
    using assms(2) by (simp add: NumWinThreads_def)
  have "find_winthread (WinThreads s) W 0 = Some i"
    using assms(4) i assms(3) by (rule find_winthread_distinct)
  then have d: "dispatch s (ConfigureNotify W w h) = resize s i w h @ [Unlock_Ready i]"
    by (simp add: dispatch_def event_window_def dispatch_multi_def)
  have w: "WinThreads (main_steps (dispatch s (ConfigureNotify W w h)) s) =
      (WinThreads s)[i := (WinThreads s ! i)\<lparr>NewSize := True, WinWidth := w, WinHeight := h,
         Ready := False\<rparr>]"
    unfolding d using assms(1) i by (rule WinThreads_resize)
  have "Win (WinThreads s ! j) \<noteq> W" if "j < NumWinThreads s" "j \<noteq> i" for j
    using that i assms(3,4) distinct_Win [of "WinThreads s" i j]
    by (auto simp: NumWinThreads_def)
  then show ?thesis
    unfolding w by simp
qed

theorem resize_changes_only_its_unit_witness:
  "\<not> aborted fresh_state \<and> 1 < NumWinThreads fresh_state \<and>
   Win (WinThreads fresh_state ! 1) = 11 \<and> distinct (map Win (WinThreads fresh_state)) \<and>
   0 < NumWinThreads fresh_state \<and> (0::nat) \<noteq> 1 \<and>
   WinThreads (main_steps (dispatch fresh_state (ConfigureNotify 11 640 480)) fresh_state) =
     [fresh_unit 0, fresh_unit 1\<lparr>NewSize := True, WinWidth := 640, WinHeight := 480,
        Ready := False\<rparr>] \<and>
   WinThreads (main_steps (dispatch fresh_state (ConfigureNotify 11 640 480)) fresh_state) ! 0 =
     WinThreads fresh_state ! 0"
proof -
  have h: "\<not> aborted fresh_state" "1 < NumWinThreads fresh_state"
    "Win (WinThreads fresh_state ! 1) = 11" "distinct (map Win (WinThreads fresh_state))"
    by (simp_all add: fresh_state_def fresh_unit_def NumWinThreads_def)
  have w: "WinThreads fresh_state = [fresh_unit 0, fresh_unit 1]"
    by (simp add: fresh_state_def)
  show ?thesis
    using resize_changes_only_its_unit [OF h, of 640 480] h
    by (simp add: w NumWinThreads_def)
qed

lemma start_up_good_env:
  "start_up good_env initial_options =
    ([Stdout ''glthreads: Using XLockDisplay()/XUnlockDisplay().'',
      Stdout ''glthreads: Single display connection.'',
      Stdout ''XInitThreads() returned %d (success)'',
      Stdout ''glthreads: creating windows'',
      Stdout ''glthreads: creating threads'',
      Stdout ''glthreads: Created thread %p'',
      Stdout ''glthreads: Created thread %p''],
     Inr (fresh_state, 1))"
  by (simp add: start_up_def good_env_def initial_options_def create_windows.simps
      create_window_def zero_winthread_def create_threads_def fresh_state_def fresh_unit_def)

lemma join_loop_eq:
  "join_loop s i = map (\<lambda>k. pthread_join (Thread (WinThreads s ! k))) [i..<NumWinThreads s]"
proof (induction s i rule: join_loop.induct)
  case (1 s i)
  show ?case
  proof (cases "i < NumWinThreads s")
    case True
    then show ?thesis
      using 1 by (subst join_loop.simps) (simp add: upt_conv_Cons)
  next
    case False
    then show ?thesis
      by (subst join_loop.simps) simp
  qed
qed

lemma destroy_loop_eq:
  "destroy_loop s i =
    concat (map (\<lambda>k. [glXDestroyContext (Dpy (WinThreads s ! k)) (Context (WinThreads s ! k)),
                       XDestroyWindow (Dpy (WinThreads s ! k)) (Win (WinThreads s ! k))])
              [i..<NumWinThreads s])"
proof (induction s i rule: destroy_loop.induct)
  case (1 s i)
  show ?case
  proof (cases "i < NumWinThreads s")
    case True
    then show ?thesis
      using 1 by (subst destroy_loop.simps) (simp add: upt_conv_Cons)
  next
    case False
    then show ?thesis
      by (subst destroy_loop.simps) simp
  qed
qed

lemma close_loop_eq:
  "close_loop s i = map (\<lambda>k. XCloseDisplay (Dpy (WinThreads s ! k))) [i..<NumWinThreads s]"
proof (induction s i rule: close_loop.induct)
  case (1 s i)
  show ?case
  proof (cases "i < NumWinThreads s")
    case True
    then show ?thesis
      using 1 by (subst close_loop.simps) (simp add: upt_conv_Cons)
  next
    case False
    then show ?thesis
      by (subst close_loop.simps) simp
  qed
qed

lemma precedes_append:
  "precedes P Q (xs @ ys) =
    (precedes P Q xs \<and> precedes P Q ys \<and> (list_ex Q xs \<longrightarrow> \<not> list_ex P ys))"
  by (induction xs) (auto simp: list_ex_iff)

lemma precedes_no_Q: "\<forall>x \<in> set xs. \<not> Q x \<Longrightarrow> precedes P Q xs"
  by (induction xs) simp_all

lemma precedes_no_P: "\<forall>x \<in> set xs. \<not> P x \<Longrightarrow> precedes P Q xs"
  by (induction xs) (simp_all add: list_ex_iff)

lemma nth_concat_pairs:
  "i < length xs \<Longrightarrow>
   concat (map (\<lambda>x. [f x, g x]) xs) ! (2 * i) = f (xs ! i) \<and>
   concat (map (\<lambda>x. [f x, g x]) xs) ! (2 * i + 1) = g (xs ! i)"
proof (induction xs arbitrary: i)
  case Nil
  then show ?case by simp
next
  case (Cons x xs)
  then show ?case by (cases i) simp_all
qed

lemma length_concat_pairs: "length (concat (map (\<lambda>x. [f x, g x]) xs)) = 2 * length xs"
  by (induction xs) simp_all

lemma precedes_segments:
  "\<forall>x \<in> set xs. \<not> Q x \<Longrightarrow> \<forall>y \<in> set ys. \<not> P y \<Longrightarrow> precedes P Q (xs @ ys)"
  by (simp add: precedes_append precedes_no_P precedes_no_Q list_ex_iff)

lemma shut_down_eq: "fst (shut_down s dpy) = joins s @ destroys s @ closes s dpy"
  by (simp add: shut_down_def clean_up_def join_loop_eq destroy_loop_eq close_loop_eq
      joins_def destroys_def closes_def)

lemma joins_class: "\<forall>x \<in> set (joins s). is_join x \<and> \<not> is_destroy x \<and> \<not> is_close x"
  by (simp add: joins_def is_join_def is_destroy_def is_close_def)

lemma destroys_class: "\<forall>x \<in> set (destroys s). \<not> is_join x \<and> is_destroy x \<and> \<not> is_close x"
  by (auto simp: destroys_def is_join_def is_destroy_def is_close_def)

lemma closes_class: "\<forall>x \<in> set (closes s dpy). \<not> is_join x \<and> \<not> is_destroy x \<and> is_close x"
  by (simp add: closes_def is_join_def is_destroy_def is_close_def)

lemma length_joins: "length (joins s) = NumWinThreads s"
  by (simp add: joins_def)

lemma length_destroys: "length (destroys s) = 2 * NumWinThreads s"
  by (simp add: destroys_def length_concat_pairs)

lemma nth_joins:
  "i < NumWinThreads s \<Longrightarrow> joins s ! i = pthread_join (Thread (WinThreads s ! i))"
  by (simp add: joins_def)

lemma nth_destroys:
  assumes "i < NumWinThreads s"
  shows "destroys s ! (2 * i) =
      glXDestroyContext (Dpy (WinThreads s ! i)) (Context (WinThreads s ! i))"
    and "destroys s ! (2 * i + 1) = XDestroyWindow (Dpy (WinThreads s ! i)) (Win (WinThreads s ! i))"
  using nth_concat_pairs [of i "[0..<NumWinThreads s]"
        "\<lambda>k. glXDestroyContext (Dpy (WinThreads s ! k)) (Context (WinThreads s ! k))"
        "\<lambda>k. XDestroyWindow (Dpy (WinThreads s ! k)) (Win (WinThreads s ! k))"] assms
  by (simp_all add: destroys_def)

lemma nth_closes:
  "i < NumWinThreads s \<Longrightarrow>
   closes s dpy ! (if MultiDisplays s then i else 0) =
     XCloseDisplay (if MultiDisplays s then Dpy (WinThreads s ! i) else dpy)"
  by (simp add: closes_def)

lemma nth_segments:
  "(xs @ ys @ zs) ! (length xs + k) = (ys @ zs) ! k"
  "k < length ys \<Longrightarrow> (ys @ zs) ! k = ys ! k"
  "(ys @ zs) ! (length ys + k) = zs ! k"
  by (simp_all add: nth_append)

text \<open>
  Claim C5.  On the shutdown path every \<open>pthread_join\<close> comes before every destroy call
  and every \<open>XCloseDisplay\<close> comes after every destroy call: with \<open>n\<close> units the calls
  are the \<open>n\<close> joins (positions \<open>0..n-1\<close>), then for each unit \<open>i\<close> its
  \<open>glXDestroyContext\<close> directly followed by its \<open>XDestroyWindow\<close> (positions \<open>n + 2i\<close>
  and \<open>n + 2i + 1\<close>), then from position \<open>3n\<close> on the connection of each unit with one
  connection per unit, else the one shared connection; then \<open>main\<close> returns 0.
\<close>

theorem shutdown_order:
  "precedes is_join is_destroy (fst (shut_down s dpy)) \<and>
   precedes is_destroy is_close (fst (shut_down s dpy)) \<and>
   precedes is_join is_close (fst (shut_down s dpy)) \<and>
   length (fst (shut_down s dpy)) =
     3 * NumWinThreads s + (if MultiDisplays s then NumWinThreads s else 1) \<and>
   snd (shut_down s dpy) = Exited 0 \<and>
   (\<forall>i < NumWinThreads s.
      fst (shut_down s dpy) ! i = pthread_join (Thread (WinThreads s ! i)) \<and>
      fst (shut_down s dpy) ! (NumWinThreads s + 2 * i) =
        glXDestroyContext (Dpy (WinThreads s ! i)) (Context (WinThreads s ! i)) \<and>
      fst (shut_down s dpy) ! (NumWinThreads s + (2 * i + 1)) =
        XDestroyWindow (Dpy (WinThreads s ! i)) (Win (WinThreads s ! i)) \<and>
      fst (shut_down s dpy) ! (3 * NumWinThreads s + (if MultiDisplays s then i else 0)) =
        XCloseDisplay (if MultiDisplays s then Dpy (WinThreads s ! i) else dpy))"
proof -
  let ?n = "NumWinThreads s"
  let ?tr = "joins s @ destroys s @ closes s dpy"
  have b: "precedes is_join is_destroy ?tr"
    using joins_class [of s] destroys_class [of s] closes_class [of s dpy]
    by (intro precedes_segments) auto
  have "precedes is_destroy is_close ((joins s @ destroys s) @ closes s dpy)"
    using joins_class [of s] destroys_class [of s] closes_class [of s dpy]
    by (intro precedes_segments) auto
  then have c: "precedes is_destroy is_close ?tr"
    by simp
  have d: "precedes is_join is_close ?tr"
    using joins_class [of s] destroys_class [of s] closes_class [of s dpy]
    by (intro precedes_segments) auto
  have l: "length ?tr = 3 * ?n + (if MultiDisplays s then ?n else 1)"
    by (simp add: length_joins length_destroys) (simp add: closes_def)
  have e: "?tr ! i = pthread_join (Thread (WinThreads s ! i)) \<and>
      ?tr ! (?n + 2 * i) =
        glXDestroyContext (Dpy (WinThreads s ! i)) (Context (WinThreads s ! i)) \<and>
      ?tr ! (?n + (2 * i + 1)) =
        XDestroyWindow (Dpy (WinThreads s ! i)) (Win (WinThreads s ! i)) \<and>
      ?tr ! (3 * ?n + (if MultiDisplays s then i else 0)) =
        XCloseDisplay (if MultiDisplays s then Dpy (WinThreads s ! i) else dpy)"
    if i: "i < ?n" for i
  proof -
    have 1: "?tr ! i = pthread_join (Thread (WinThreads s ! i))"
      using i nth_segments(2) [of i "joins s" "destroys s @ closes s dpy"]
      by (simp add: length_joins nth_joins)
    have 2: "?tr ! (?n + 2 * i) = destroys s ! (2 * i)"
      using i nth_segments(1) [of "joins s" "destroys s" "closes s dpy" "2 * i"]
        nth_segments(2) [of "2 * i" "destroys s" "closes s dpy"]
      by (simp add: length_joins length_destroys)
    have 3: "?tr ! (?n + (2 * i + 1)) = destroys s ! (2 * i + 1)"
      using i nth_segments(1) [of "joins s" "destroys s" "closes s dpy" "2 * i + 1"]
        nth_segments(2) [of "2 * i + 1" "destroys s" "closes s dpy"]
      by (simp add: length_joins length_destroys)
    have "?tr ! (length (joins s) + (length (destroys s) + (if MultiDisplays s then i else 0))) =
        closes s dpy ! (if MultiDisplays s then i else 0)"
      unfolding nth_segments(1) nth_segments(3) ..
    moreover have "length (joins s) + (length (destroys s) + (if MultiDisplays s then i else 0)) =
        3 * ?n + (if MultiDisplays s then i else 0)"
      by (simp add: length_joins length_destroys)
    ultimately have 4: "?tr ! (3 * ?n + (if MultiDisplays s then i else 0)) =
        closes s dpy ! (if MultiDisplays s then i else 0)"
      by simp
    show ?thesis
      unfolding 1 2 3 4 using nth_destroys [OF i] nth_closes [OF i, of dpy] by simp
  qed
  have x: "snd (shut_down s dpy) = Exited 0"
    by (simp add: shut_down_def)
  show ?thesis
    unfolding shut_down_eq using b c d l e x by blast
qed

theorem shutdown_order_witness:
  "1 < NumWinThreads fresh_state \<and>
   fst (shut_down fresh_state 1) ! 1 = pthread_join 31 \<and>
   fst (shut_down fresh_state 1) ! 4 = glXDestroyContext 1 21 \<and>
   fst (shut_down fresh_state 1) ! 5 = XDestroyWindow 1 11 \<and>
   fst (shut_down fresh_state 1) ! 6 = XCloseDisplay 1"
proof -
  have h: "1 < NumWinThreads fresh_state"
    by (simp add: NumWinThreads_def fresh_state_def)
  note t = shutdown_order [of fresh_state 1]
  note e = t [THEN conjunct2, THEN conjunct2, THEN conjunct2, THEN conjunct2, THEN conjunct2,
      rule_format, OF h]
  have f: "NumWinThreads fresh_state = 2" "\<not> MultiDisplays fresh_state"
    "Thread (WinThreads fresh_state ! 1) = 31" "Dpy (WinThreads fresh_state ! 1) = 1"
    "Context (WinThreads fresh_state ! 1) = 21" "Win (WinThreads fresh_state ! 1) = 11"
    by (simp_all add: NumWinThreads_def fresh_state_def fresh_unit_def)
  show ?thesis
    using h e f by simp
qed

lemmas prim_defs = goto_def did_def log_def upd_wt_def

lemma run_Nil: "run [] s = s"
  by (simp add: run_def)

lemma run_Cons: "run (a # sch) s = run sch (perform a s)"
  by (simp add: run_def)

lemma run_append: "run (sch @ sch') s = run sch' (run sch s)"
  by (simp add: run_def)

lemma create_window_ok:
  "unit_ok e (Index wt) \<Longrightarrow> \<exists>wt'. create_window e wt sh = Inr wt'"
  by (simp add: create_window_def unit_ok_def Let_def)

lemma create_window_fail:
  "\<not> unit_ok e (Index wt) \<Longrightarrow> \<exists>msg. create_window e wt sh = Inl (msg, Exited 1)"
  by (auto simp: create_window_def unit_ok_def Let_def Error_def)

lemma create_windows_fail:
  "i \<le> k \<Longrightarrow> int k < numThreads opts \<Longrightarrow> \<forall>j. i \<le> j \<and> j < k \<longrightarrow> unit_ok e j \<Longrightarrow>
   \<not> unit_ok e k \<Longrightarrow> (MultiDisplays opts \<longrightarrow> (\<forall>j. i \<le> j \<and> j \<le> k \<longrightarrow> XOpenDisplay_ret e j \<noteq> 0)) \<Longrightarrow>
   \<exists>msg. create_windows e opts dpy i wts = Inl (msg, Exited 1)"
proof (induction e opts dpy i wts rule: create_windows.induct)
  case (1 e opts dpy i wts)
  let ?d = "if MultiDisplays opts then XOpenDisplay_ret e i else dpy"
  let ?wt = "zero_winthread\<lparr>Dpy := ?d, Index := i, Initialized := False\<rparr>"
  let ?share = "if Texture opts \<and> i > 0 then Context (wts ! 0) else 0"
  have lt: "int i < numThreads opts"
    using "1.prems" by simp
  have d: "\<not> (MultiDisplays opts \<and> ?d = 0)"
    using "1.prems" by auto
  show ?case
  proof (cases "i = k")
    case True
    then have "\<not> unit_ok e (Index ?wt)"
      using "1.prems" by simp
    then obtain msg where "create_window e ?wt ?share = Inl (msg, Exited 1)"
      using create_window_fail by blast
    then show ?thesis
      using lt d by (subst create_windows.simps) (simp add: Let_def)
  next
    case False
    then have "unit_ok e (Index ?wt)"
      using "1.prems" by simp
    then obtain wt' where w: "create_window e ?wt ?share = Inr wt'"
      using create_window_ok by blast
    have "\<exists>msg. create_windows e opts dpy (i + 1) (wts @ [wt']) = Inl (msg, Exited 1)"
      using "1.IH" [OF lt refl _ refl refl w] d False "1.prems" by auto
    then show ?thesis
      using lt d w by (subst create_windows.simps) (simp add: Let_def)
  qed
qed

text \<open>
  Against claim C4 as stated: in a run where no connection can be opened, \<open>main\<close> with no
  argument prints the message and returns \<open>-1\<close>, not 1; with \<open>-p\<close> the \<open>assert\<close> on the
  unit's connection aborts the process.
\<close>

theorem unreachable_display_counterexample:
  "main atoi_c no_display_env [] [] =
     Some (usage @
           [Stdout ''glthreads: Using XLockDisplay()/XUnlockDisplay().'',
            Stdout ''glthreads: Single display connection.'',
            Stdout ''XInitThreads() returned %d (success)'',
            Stderr ''Unable to open display %s''],
           [], Exited (- 1)) \<and>
   main atoi_c no_display_env [''-p''] [] =
     Some ([Stdout ''glthreads: Per-thread display connections.'',
            Stdout ''glthreads: creating windows''],
           [], Aborted)"
  by (simp add: main_def parse_args_def start_up_def initial_options_def no_display_env_def
      good_env_def create_windows.simps)

text \<open>
  Claim C4, amended.  Once the arguments are accepted: a run that reaches the shutdown (the
  exit flag set, every thread out of its loop) ends with the shutdown calls and status 0;
  a run in which some unit \<open>k\<close> is the first for which \<open>create_window\<close> finds no visual,
  gets no window, gets no context, or gets \<open>-1\<close> from \<open>pthread_mutex_init\<close> or
  \<open>pthread_mutex_lock\<close> exits with status 1 before any shutdown call; a run in which the
  shared connection cannot be opened ends with \<open>main\<close> returning \<open>-1\<close>.
\<close>

theorem exit_codes:
  assumes "parse_args atoi args = (out, Inr opts)"
  shows "(\<forall>out' s0 dpy.
       start_up e opts = (out', Inr (s0, dpy)) \<and> \<not> aborted (run sch s0) \<and>
       ExitFlag (run sch s0) \<and> list_all (\<lambda>p. p = P_done) (pcs (run sch s0)) \<longrightarrow>
       main atoi e args sch = Some (out @ out', fst (shut_down (run sch s0) dpy), Exited 0)) \<and>
    (\<forall>k. int k < numThreads opts \<and> (\<forall>j < k. unit_ok e j) \<and> \<not> unit_ok e k \<and>
       (if MultiDisplays opts then \<forall>j \<le> k. XOpenDisplay_ret e j \<noteq> 0
        else XOpenDisplay_ret e 0 \<noteq> 0) \<longrightarrow>
       (\<exists>out'. main atoi e args sch = Some (out', [], Exited 1))) \<and>
    (\<not> MultiDisplays opts \<and> XOpenDisplay_ret e 0 = 0 \<longrightarrow>
       (\<exists>out'. main atoi e args sch = Some (out', [], Exited (- 1))))"
proof (intro conjI allI impI)
  fix out' s0 dpy
  assume "start_up e opts = (out', Inr (s0, dpy)) \<and> \<not> aborted (run sch s0) \<and>
       ExitFlag (run sch s0) \<and> list_all (\<lambda>p. p = P_done) (pcs (run sch s0))"
  then show "main atoi e args sch =
      Some (out @ out', fst (shut_down (run sch s0) dpy), Exited 0)"
    using assms by (simp add: main_def shut_down_def Let_def)
next
  fix k
  assume k: "int k < numThreads opts \<and> (\<forall>j < k. unit_ok e j) \<and> \<not> unit_ok e k \<and>
       (if MultiDisplays opts then \<forall>j \<le> k. XOpenDisplay_ret e j \<noteq> 0
        else XOpenDisplay_ret e 0 \<noteq> 0)"
  let ?dpy = "if \<not> MultiDisplays opts then XOpenDisplay_ret e 0 else 0"
  have "\<exists>msg. create_windows e opts ?dpy 0 [] = Inl (msg, Exited 1)"
    using k by (intro create_windows_fail [of 0 k]) (auto split: if_splits)
  then obtain msg where c: "create_windows e opts ?dpy 0 [] = Inl (msg, Exited 1)" ..
  have d: "\<not> (\<not> MultiDisplays opts \<and> ?dpy = 0)"
    using k by (auto split: if_splits)
  have "\<exists>out'. start_up e opts = (out', Inl (Exited 1))"
    using c d by (simp add: start_up_def Let_def)
  then show "\<exists>out'. main atoi e args sch = Some (out', [], Exited 1)"
    using assms by (auto simp: main_def)
next
  assume "\<not> MultiDisplays opts \<and> XOpenDisplay_ret e 0 = 0"
  then have "\<exists>out'. start_up e opts = (out', Inl (Exited (- 1)))"
    by (simp add: start_up_def Let_def)
  then show "\<exists>out'. main atoi e args sch = Some (out', [], Exited (- 1))"
    using assms by (auto simp: main_def)
qed

lemma parse_no_args: "parse_args atoi_c [] = (usage, Inr initial_options)"
  by (simp add: parse_args_def)

lemmas eval_defs = run_def thread_step_def main_step_def draw_loop_step_def LOCK_step_def
  UNLOCK_step_def prim_defs Let_def MakeNewTexture_def dispatch_def event_window_def
  find_winthread.simps dispatch_multi_def keypress_def unlock_loop.simps NumWinThreads_def
  resize_def signal_redraw_def fresh_state_def fresh_unit_def

lemma exit_schedule_eq:
  "exit_schedule =
    [Main_op (Unlock_Ready 0), Unit_step 0, Unit_step 0, Unit_step 0,
     Unit_step 0, Unit_step 0, Unit_step 0, Unit_step 0, Unit_step 0,
     Unit_step 0, Unit_step 0, Unit_step 0, Unit_step 0, Unit_step 0,
     Main_op Set_ExitFlag, Main_op (Unlock_Ready 0), Main_op (Unlock_Ready 1),
     Unit_step 0, Unit_step 1]"
  by (simp add: exit_schedule_def eval_defs)

lemma run_exit_schedule:
  "run exit_schedule fresh_state =
    \<lparr>MultiDisplays = False, Locking = False, Texture = False, Animate = True,
     WinThreads =
       [fresh_unit 0\<lparr>Ready := False, NewSize := False, Initialized := True\<rparr>,
        fresh_unit 1\<lparr>Ready := False\<rparr>],
     ExitFlag = True, Mutex = False, DpyLock = False, CondMutex = False,
     step = 0, TexWidth = 0, pcs = [P_done, P_done], aborted = False,
     trace =
       [Main (Unlock_Ready 0), Unit 0 pthread_mutex_lock_Ready,
        Unit 0 (LOCK NativeDisplayLock), Unit 0 (glXMakeCurrent 1 10 20),
        Unit 0 (glGetString GL_RENDERER), Unit 0 (UNLOCK NativeDisplayLock),
        Unit 0 (glEnable GL_DEPTH_TEST), Unit 0 (reshape 700 700),
        Unit 0 (draw_frame Angle_zero Angle_zero False), Unit 0 (LOCK NativeDisplayLock),
        Unit 0 (glXSwapBuffers 1 10), Unit 0 (UNLOCK NativeDisplayLock),
        Unit 0 (usleep 5000), Main Set_ExitFlag, Main (Unlock_Ready 0),
        Main (Unlock_Ready 1)]\<rparr>"
  by (simp add: exit_schedule_def eval_defs)

lemma unit_ok_good_env: "unit_ok good_env i"
  by (simp add: unit_ok_def good_env_def)

theorem exit_codes_witness:
  "parse_args atoi_c [] = (usage, Inr initial_options) \<and>
   main atoi_c good_env [] exit_schedule =
     Some (usage @
           [Stdout ''glthreads: Using XLockDisplay()/XUnlockDisplay().'',
            Stdout ''glthreads: Single display connection.'',
            Stdout ''XInitThreads() returned %d (success)'',
            Stdout ''glthreads: creating windows'',
            Stdout ''glthreads: creating threads'',
            Stdout ''glthreads: Created thread %p'',
            Stdout ''glthreads: Created thread %p''],
           [pthread_join 30, pthread_join 31, glXDestroyContext 1 20, XDestroyWindow 1 10,
            glXDestroyContext 1 21, XDestroyWindow 1 11, XCloseDisplay 1],
           Exited 0) \<and>
   (\<exists>out'. main atoi_c no_visual_env [] exit_schedule = Some (out', [], Exited 1)) \<and>
   (\<exists>out'. main atoi_c no_display_env [] exit_schedule = Some (out', [], Exited (- 1)))"
proof -
  note p = parse_no_args
  note e1 = exit_codes [OF p, of good_env exit_schedule, THEN conjunct1, rule_format]
  note e2 = exit_codes [OF p, of no_visual_env exit_schedule, THEN conjunct2, THEN conjunct1,
      rule_format, of 1]
  note e3 = exit_codes [OF p, of no_display_env exit_schedule, THEN conjunct2, THEN conjunct2,
      rule_format]
  have r: "\<not> aborted (run exit_schedule fresh_state)" "ExitFlag (run exit_schedule fresh_state)"
    "list_all (\<lambda>p. p = P_done) (pcs (run exit_schedule fresh_state))"
    by (simp_all add: run_exit_schedule)
  have s: "fst (shut_down (run exit_schedule fresh_state) 1) =
      [pthread_join 30, pthread_join 31, glXDestroyContext 1 20, XDestroyWindow 1 10,
       glXDestroyContext 1 21, XDestroyWindow 1 11, XCloseDisplay 1]"
    by (simp add: shut_down_eq joins_def destroys_def closes_def NumWinThreads_def
        run_exit_schedule fresh_unit_def upt_rec)
  have 1: "main atoi_c good_env [] exit_schedule =
     Some (usage @
           [Stdout ''glthreads: Using XLockDisplay()/XUnlockDisplay().'',
            Stdout ''glthreads: Single display connection.'',
            Stdout ''XInitThreads() returned %d (success)'',
            Stdout ''glthreads: creating windows'',
            Stdout ''glthreads: creating threads'',
            Stdout ''glthreads: Created thread %p'',
            Stdout ''glthreads: Created thread %p''],
           [pthread_join 30, pthread_join 31, glXDestroyContext 1 20, XDestroyWindow 1 10,
            glXDestroyContext 1 21, XDestroyWindow 1 11, XCloseDisplay 1],
           Exited 0)"
    using e1 [OF conjI [OF start_up_good_env conjI [OF r(1) conjI [OF r(2) r(3)]]]]
    unfolding s .
  have v: "int 1 < numThreads initial_options \<and> (\<forall>j < 1. unit_ok no_visual_env j) \<and>
      \<not> unit_ok no_visual_env 1 \<and>
      (if MultiDisplays initial_options then \<forall>j \<le> 1. XOpenDisplay_ret no_visual_env j \<noteq> 0
       else XOpenDisplay_ret no_visual_env 0 \<noteq> 0)"
    by (simp add: initial_options_def unit_ok_def no_visual_env_def good_env_def)
  have d: "\<not> MultiDisplays initial_options \<and> XOpenDisplay_ret no_display_env 0 = 0"
    by (simp add: initial_options_def no_display_env_def)
  show ?thesis
    using p 1 e2 [OF v] e3 [OF d] by (intro conjI)
qed

lemma goto_goto: "goto i p (goto i q s) = goto i p s"
  by (simp add: goto_def)

lemma image_loop_step:
  assumes "\<not> aborted s" and "i < length (pcs s)" and "i < length (WinThreads s)"
    and "pcs s ! i = P_MakeNewTexture site (M_loop k img)"
  shows "thread_step i s =
    (if k < 16384 then
       goto i (P_MakeNewTexture site (M_loop (Suc k) (img @ [Texel (step s) (k div 128) (k mod 128)]))) s
     else goto i (P_MakeNewTexture site (M_load img)) s)"
  using assms by (simp add: thread_step_def draw_loop_step_def MakeNewTexture_def TEX_SIZE_def)

lemma image_loop_run:
  assumes "\<not> aborted s" and "i < length (pcs s)" and "i < length (WinThreads s)"
    and "pcs s ! i = P_MakeNewTexture site (M_loop k img)" and "k \<le> 16384" and "n = 16384 - k"
  shows "run (replicate (Suc n) (Unit_step i)) s =
    goto i (P_MakeNewTexture site
      (M_load (img @ map (\<lambda>k. Texel (step s) (k div 128) (k mod 128)) [k..<16384]))) s"
  using assms
proof (induction n arbitrary: s k img)
  case 0
  then have "k = 16384" by simp
  then show ?case
    using 0 by (simp add: run_Cons run_Nil image_loop_step)
next
  case (Suc n)
  then have k: "k < 16384" by simp
  let ?s = "goto i (P_MakeNewTexture site
      (M_loop (Suc k) (img @ [Texel (step s) (k div 128) (k mod 128)]))) s"
  have 1: "thread_step i s = ?s"
    using Suc.prems k by (simp add: image_loop_step)
  have 2: "run (replicate (Suc n) (Unit_step i)) ?s =
    goto i (P_MakeNewTexture site
      (M_load ((img @ [Texel (step s) (k div 128) (k mod 128)]) @
         map (\<lambda>k. Texel (step ?s) (k div 128) (k mod 128)) [Suc k..<16384]))) ?s"
    using Suc.prems k by (intro Suc.IH) (simp_all add: goto_def)
  have 3: "[k..<16384] = k # [Suc k..<16384]"
    using k by (simp add: upt_conv_Cons)
  show ?case
    using 1 2 by (simp add: run_Cons 3 goto_goto) (simp add: goto_def)
qed

lemma image_loop:
  assumes "\<not> aborted s" and "i < length (pcs s)" and "i < length (WinThreads s)"
    and "pcs s ! i = P_MakeNewTexture site (M_loop 0 [])"
  shows "run (replicate 16385 (Unit_step i)) s =
    goto i (P_MakeNewTexture site (M_load (make_image (step s)))) s"
proof -
  have "run (replicate (Suc 16384) (Unit_step i)) s =
    goto i (P_MakeNewTexture site
      (M_load ([] @ map (\<lambda>k. Texel (step s) (k div 128) (k mod 128)) [0..<16384]))) s"
    using assms by (intro image_loop_run) simp_all
  moreover have "Suc 16384 = 16385" by simp
  ultimately show ?thesis
    by (simp add: make_image_def TEX_SIZE_def)
qed

lemmas step_defs = thread_step_def main_step_def draw_loop_step_def LOCK_step_def
  UNLOCK_step_def prim_defs Let_def MakeNewTexture_def dispatch_def event_window_def
  find_winthread.simps dispatch_multi_def keypress_def unlock_loop.simps NumWinThreads_def
  resize_def signal_redraw_def fresh_state_def fresh_unit_def run_Cons run_Nil run_append
  TEX_SIZE_def TexObj_def add_half_def

lemma texture_start:
  "parse_args atoi_c [''-t''] = ([], Inr (initial_options\<lparr>Texture := True\<rparr>))"
  "snd (start_up good_env (initial_options\<lparr>Texture := True\<rparr>)) = Inr (texture_state, 1)"
  by (simp_all add: parse_args_def start_up_def good_env_def initial_options_def
      create_windows.simps create_window_def zero_winthread_def create_threads_def
      texture_state_def fresh_state_def fresh_unit_def)

lemma add_half_saturates: "add_half 8388608 = 8388608"
  by (simp add: add_half_def)

text \<open>
  Claim C9, on the code.  The claim says that the scalar \<open>step\<close> never decreases and grows by
  0.5 with each regeneration.  In the run started with \<open>-t\<close> in which every library call
  succeeds, both units draw their first frame (\<open>step\<close> is 1), the texture key is pressed
  in both windows and both windows are exposed; unit 0 builds its image and reads \<open>step\<close>
  for \<open>step += 0.5\<close> (it reads 1); unit 1 regenerates (\<open>step\<close> is 1.5), the key is pressed
  again in its window, and it regenerates again up to its store (\<open>step\<close> is 2); then unit
  0 stores its sum: \<open>step\<close> goes down from 2 to 1.5.  Nothing keeps the two calls of line
  298 apart: they run outside \<open>LOCK\<close>/\<open>UNLOCK\<close>, while the call of line 276 runs inside.
\<close>

theorem stale_store_lowers_step:
  "parse_args atoi_c [''-t''] = ([], Inr (initial_options\<lparr>Texture := True\<rparr>)) \<and>
   snd (start_up good_env (initial_options\<lparr>Texture := True\<rparr>)) = Inr (texture_state, 1) \<and>
   step (run (first_frames @ overlapping_requests) texture_state) = 2 \<and>
   pcs (run (first_frames @ overlapping_requests) texture_state) ! 0 =
     P_MakeNewTexture Requested (M_store (make_image 1) 1) \<and>
   step (run (first_frames @ overlapping_requests @ [Unit_step 0]) texture_state) = 3 / 2"
proof -
  have 1: "step (run (first_frames @ overlapping_requests) texture_state) = 2"
    by (simp add: first_frames_def overlapping_requests_def texture_state_def step_defs
        image_loop)
  have 2: "pcs (run (first_frames @ overlapping_requests) texture_state) ! 0 =
     P_MakeNewTexture Requested (M_store (make_image 1) 1)"
    by (simp add: first_frames_def overlapping_requests_def texture_state_def step_defs
        image_loop)
  have 3: "step (run (first_frames @ overlapping_requests @ [Unit_step 0]) texture_state) =
      3 / 2"
    by (simp add: first_frames_def overlapping_requests_def texture_state_def step_defs
        image_loop)
  show ?thesis
    using texture_start 1 2 3 by (intro conjI)
qed

theorem stale_store_lowers_step_witness:
  "step (run (first_frames @ overlapping_requests @ [Unit_step 0]) texture_state) <
   step (run (first_frames @ overlapping_requests) texture_state)"
  using stale_store_lowers_step by simp

lemma gate_log_snoc: "gate_log i (tr @ [e]) = gate_event i (gate_log i tr) e"
  by (simp add: gate_log_def)

lemma gate_event_other_unit: "j \<noteq> i \<Longrightarrow> gate_event i st (Unit j c) = st"
  by (simp add: gate_event_def is_present_def split: option.splits)

lemma gate_event_quiet:
  "c \<noteq> pthread_mutex_lock_Ready \<Longrightarrow> (\<forall>d w. c \<noteq> glXSwapBuffers d w) \<Longrightarrow>
   gate_event i st (Unit j c) = st"
  by (cases c) (simp_all add: gate_event_def is_present_def split: option.splits)

lemma gate_log_did:
  "gate_log i (trace (did j c s)) = gate_event i (gate_log i (trace s)) (Unit j c)"
  by (simp add: did_def log_def gate_log_snoc)

lemma gate_log_prims [simp]:
  "gate_log i (trace (goto j p s)) = gate_log i (trace s)"
  "gate_log i (trace (upd_wt j f s)) = gate_log i (trace s)"
  by (simp_all add: prim_defs)

lemma gate_log_MakeNewTexture [simp]:
  "gate_log i (trace (MakeNewTexture j site m s)) = gate_log i (trace s)"
  by (cases m; cases site) (simp_all add: MakeNewTexture_def gate_log_did gate_event_quiet)

lemma gate_log_LOCK_step [simp]:
  "gate_log i (trace (LOCK_step j p s)) = gate_log i (trace s)"
  by (simp add: LOCK_step_def gate_log_did gate_event_quiet)

lemma gate_log_UNLOCK_step [simp]:
  "gate_log i (trace (UNLOCK_step j p s)) = gate_log i (trace s)"
  by (simp add: UNLOCK_step_def gate_log_did gate_event_quiet)

lemma prim_proj [simp]:
  "WinThreads (goto j p s) = WinThreads s" "WinThreads (did j c s) = WinThreads s"
  "WinThreads (upd_wt j f s) = (WinThreads s)[j := f (WinThreads s ! j)]"
  "pcs (goto j p s) = (pcs s)[j := p]" "pcs (did j c s) = pcs s" "pcs (upd_wt j f s) = pcs s"
  "ExitFlag (goto j p s) = ExitFlag s" "ExitFlag (did j c s) = ExitFlag s"
  "ExitFlag (upd_wt j f s) = ExitFlag s"
  "aborted (goto j p s) = aborted s" "aborted (did j c s) = aborted s"
  "aborted (upd_wt j f s) = aborted s"
  "trace (goto j p s) = trace s" "trace (did j c s) = trace s @ [Unit j c]"
  "trace (upd_wt j f s) = trace s"
  by (simp_all add: prim_defs)

lemma MakeNewTexture_frame [simp]:
  "ExitFlag (MakeNewTexture j site m s) = ExitFlag s"
  "length (pcs (MakeNewTexture j site m s)) = length (pcs s)"
  "length (WinThreads (MakeNewTexture j site m s)) = length (WinThreads s)"
  by (cases m; cases site; simp add: MakeNewTexture_def)+

lemma MakeNewTexture_other:
  "j \<noteq> i \<Longrightarrow> WinThreads (MakeNewTexture j site m s) ! i = WinThreads s ! i"
  "j \<noteq> i \<Longrightarrow> pcs (MakeNewTexture j site m s) ! i = pcs s ! i"
  by (cases m; cases site; simp add: MakeNewTexture_def)+

lemma MakeNewTexture_own:
  assumes "i < length (pcs s)" and "i < length (WinThreads s)"
  shows "Ready (WinThreads (MakeNewTexture i site m s) ! i) = Ready (WinThreads s ! i)"
    and "pcs s ! i = P_MakeNewTexture site m \<Longrightarrow> in_frame (pcs (MakeNewTexture i site m s) ! i)"
  using assms by (cases m; cases site; simp add: MakeNewTexture_def in_frame_def)+

lemma LOCK_step_frame [simp]:
  "WinThreads (LOCK_step j p s) = WinThreads s" "ExitFlag (LOCK_step j p s) = ExitFlag s"
  "aborted (LOCK_step j p s) = aborted s"
  "length (pcs (LOCK_step j p s)) = length (pcs s)"
  "j \<noteq> i \<Longrightarrow> pcs (LOCK_step j p s) ! i = pcs s ! i"
  by (simp_all add: LOCK_step_def)

lemma LOCK_step_pc:
  "j < length (pcs s) \<Longrightarrow> pcs (LOCK_step j p s) ! j = p \<or> pcs (LOCK_step j p s) ! j = pcs s ! j"
  by (simp add: LOCK_step_def)

lemma UNLOCK_step_frame [simp]:
  "WinThreads (UNLOCK_step j p s) = WinThreads s" "ExitFlag (UNLOCK_step j p s) = ExitFlag s"
  "aborted (UNLOCK_step j p s) = aborted s"
  "length (pcs (UNLOCK_step j p s)) = length (pcs s)"
  "j \<noteq> i \<Longrightarrow> pcs (UNLOCK_step j p s) ! i = pcs s ! i"
  "j < length (pcs s) \<Longrightarrow> pcs (UNLOCK_step j p s) ! j = p"
  by (simp_all add: UNLOCK_step_def)

lemma draw_loop_step_other_wt:
  "j \<noteq> i \<Longrightarrow> WinThreads (draw_loop_step j s) ! i = WinThreads s ! i"
  by (cases "pcs s ! j") (simp_all add: draw_loop_step_def Let_def MakeNewTexture_other)

lemma draw_loop_step_other_pc:
  "j \<noteq> i \<Longrightarrow> pcs (draw_loop_step j s) ! i = pcs s ! i"
  by (cases "pcs s ! j") (simp_all add: draw_loop_step_def Let_def MakeNewTexture_other)

lemma draw_loop_step_other_gate:
  "j \<noteq> i \<Longrightarrow> gate_log i (trace (draw_loop_step j s)) = gate_log i (trace s)"
  by (cases "pcs s ! j")
    (simp_all add: draw_loop_step_def Let_def gate_log_did gate_event_other_unit
      del: prim_proj(14))

lemma draw_loop_step_lengths [simp]:
  "length (pcs (draw_loop_step j s)) = length (pcs s)"
  "length (WinThreads (draw_loop_step j s)) = length (WinThreads s)"
  by (cases "pcs s ! j"; simp add: draw_loop_step_def Let_def)+

lemma draw_loop_step_ExitFlag [simp]: "ExitFlag (draw_loop_step j s) = ExitFlag s"
  by (cases "pcs s ! j") (simp_all add: draw_loop_step_def Let_def)

lemma gate_inv_own_step:
  assumes "gate_inv i s" and "i < length (pcs s)" and "i < length (WinThreads s)"
  shows "gate_inv i (draw_loop_step i s)"
proof (cases "pcs s ! i")
  case (P_MakeNewTexture site m)
  then show ?thesis
    using assms MakeNewTexture_own [of i s site m]
    by (auto simp: gate_inv_def draw_loop_step_def in_frame_def split: option.splits)
next
  case P_LOCK1
  then show ?thesis
    using assms LOCK_step_pc [of i s P_current]
    by (auto simp: gate_inv_def draw_loop_step_def in_frame_def split: option.splits)
next
  case P_LOCK2
  then show ?thesis
    using assms LOCK_step_pc [of i s P_swap]
    by (auto simp: gate_inv_def draw_loop_step_def in_frame_def split: option.splits)
qed (use assms in \<open>auto simp: gate_inv_def draw_loop_step_def Let_def in_frame_def gate_log_did
      gate_event_quiet gate_event_def is_present_def
      simp del: prim_proj(14) split: option.splits\<close>)

lemma thread_step_lengths [simp]:
  "length (pcs (thread_step j s)) = length (pcs s)"
  "length (WinThreads (thread_step j s)) = length (WinThreads s)"
  by (simp_all add: thread_step_def)

lemma exec_dop_pcs_length [simp]: "length (pcs (exec_dop d s)) = length (pcs s)"
  by (cases d) (simp_all add: upd_wt_def)

lemma main_step_lengths [simp]:
  "length (pcs (main_step d s)) = length (pcs s)"
  by (simp add: main_step_def log_def)

lemma perform_lengths [simp]:
  "length (pcs (perform a s)) = length (pcs s)"
  "length (WinThreads (perform a s)) = length (WinThreads s)"
  by (cases a; simp)+

lemma gate_inv_thread_step:
  assumes "gate_inv i s" and "i < length (pcs s)" and "i < length (WinThreads s)"
  shows "gate_inv i (thread_step j s)"
proof (cases "j = i")
  case True
  then show ?thesis
    using assms by (simp add: thread_step_def gate_inv_own_step)
next
  case False
  then show ?thesis
    using assms
    by (auto simp: thread_step_def gate_inv_def draw_loop_step_other_wt
        draw_loop_step_other_pc draw_loop_step_other_gate split: option.splits)
qed

lemma in_frame_broadcast:
  "in_frame (if p = P_wait then P_woken else p) = in_frame p"
  by (simp add: in_frame_def)

lemma gate_inv_wakeup:
  assumes "gate_inv i s" and "i < length (pcs s)"
  shows "gate_inv i (perform (Spurious_wakeup j) s)"
  using assms
  by (cases "j = i") (auto simp: gate_inv_def in_frame_def split: option.splits)

lemma gate_inv_main_step:
  assumes "gate_inv i s" and "i < length (pcs s)" and "i < length (WinThreads s)"
  shows "gate_inv i (main_step d s)"
  using assms
  by (cases d)
    (auto simp: main_step_def gate_inv_def log_def upd_wt_def gate_log_snoc gate_event_def
      is_present_def nth_upd_same in_frame_broadcast split: option.splits)

lemma gate_inv_perform:
  "gate_inv i s \<Longrightarrow> i < length (pcs s) \<Longrightarrow> i < length (WinThreads s) \<Longrightarrow>
   gate_inv i (perform a s)"
  by (cases a)
    (simp_all add: gate_inv_thread_step gate_inv_main_step gate_inv_wakeup
      del: perform.simps(3))

lemma gate_inv_run:
  "gate_inv i s \<Longrightarrow> i < length (pcs s) \<Longrightarrow> i < length (WinThreads s) \<Longrightarrow>
   gate_inv i (run sch s)"
proof (induction sch arbitrary: s)
  case Nil
  then show ?case by (simp add: run_Nil)
next
  case (Cons a sch)
  then show ?case
    by (simp add: run_Cons gate_inv_perform)
qed

lemma gate_inv_start:
  "Ready (WinThreads s ! i) \<Longrightarrow> \<not> in_frame (pcs s ! i) \<Longrightarrow> trace s = [] \<Longrightarrow> gate_inv i s"
  by (simp add: gate_inv_def gate_log_def)

lemma gate_inv_ok: "gate_inv i s \<Longrightarrow> gate_ok i (trace s)"
  by (auto simp: gate_inv_def gate_ok_def split: option.splits)


lemma create_window_Ready:
  "create_window e wt sh = Inr wt' \<Longrightarrow> pthread_mutex_lock_ret e (Index wt) = 0 \<Longrightarrow> Ready wt'"
  by (auto simp: create_window_def Let_def split: if_splits)

lemma create_windows_unfold:
  "create_windows e opts dpy i wts =
    (if int i < numThreads opts then
       (if MultiDisplays opts \<and> (if MultiDisplays opts then XOpenDisplay_ret e i else dpy) = 0
        then Inl ([], Aborted)
        else
          (case create_window e
                  (zero_winthread\<lparr>Dpy := (if MultiDisplays opts then XOpenDisplay_ret e i else dpy),
                     Index := i, Initialized := False\<rparr>)
                  (if Texture opts \<and> i > 0 then Context (wts ! 0) else 0) of
             Inl x \<Rightarrow> Inl x
           | Inr wt' \<Rightarrow> create_windows e opts dpy (i + 1) (wts @ [wt'])))
     else Inr wts)"
  by (subst create_windows.simps) (simp add: Let_def)

lemma create_windows_Ready:
  "create_windows e opts dpy i wts = Inr wts' \<Longrightarrow> \<forall>k. pthread_mutex_lock_ret e k = 0 \<Longrightarrow>
   \<forall>wt \<in> set wts. Ready wt \<Longrightarrow> \<forall>wt \<in> set wts'. Ready wt"
proof (induction e opts dpy i wts rule: create_windows.induct)
  case (1 e opts dpy i wts)
  let ?d = "if MultiDisplays opts then XOpenDisplay_ret e i else dpy"
  let ?wt = "zero_winthread\<lparr>Dpy := ?d, Index := i, Initialized := False\<rparr>"
  let ?share = "if Texture opts \<and> i > 0 then Context (wts ! 0) else 0"
  note u = create_windows_unfold [of e opts dpy i wts]
  show ?case
  proof (cases "int i < numThreads opts")
    case False
    then have "wts' = wts"
      using "1.prems"(1) u by simp
    then show ?thesis
      using "1.prems"(3) by simp
  next
    case True
    have d: "\<not> (MultiDisplays opts \<and> ?d = 0)"
      using "1.prems"(1) u True by (auto split: if_splits)
    show ?thesis
    proof (cases "create_window e ?wt ?share")
      case (Inl x)
      then show ?thesis
        using "1.prems"(1) u True d by (auto split: if_splits)
    next
      case (Inr wt')
      have c: "create_windows e opts dpy (i + 1) (wts @ [wt']) = Inr wts'"
        using "1.prems"(1) u True d Inr by (auto split: if_splits)
      have "Ready wt'"
        using create_window_Ready [OF Inr] "1.prems"(2) by simp
      then have r: "\<forall>wt \<in> set (wts @ [wt']). Ready wt"
        using "1.prems"(3) by simp
      show ?thesis
        by (rule "1.IH" [OF True refl d refl refl Inr c "1.prems"(2) r])
    qed
  qed
qed

lemma snd_start_up:
  "snd (start_up e opts) =
    (if \<not> MultiDisplays opts \<and> XOpenDisplay_ret e 0 = 0 then Inl (Exited (- 1))
     else
       (case create_windows e opts (if \<not> MultiDisplays opts then XOpenDisplay_ret e 0 else 0)
               0 [] of
          Inl x \<Rightarrow> Inl (snd x)
        | Inr wts \<Rightarrow>
            Inr (\<lparr>MultiDisplays = MultiDisplays opts, Locking = Locking opts,
                   Texture = Texture opts, Animate = Animate opts,
                   WinThreads = create_threads e wts, ExitFlag = False, Mutex = False,
                   DpyLock = False, CondMutex = False, step = 0, TexWidth = 0,
                   pcs = replicate (length wts) P_while, aborted = False, trace = []\<rparr>,
                 if \<not> MultiDisplays opts then XOpenDisplay_ret e 0 else 0)))"
  by (simp add: start_up_def Let_def split: sum.split prod.split)

lemma start_up_closed:
  assumes "start_up e opts = (out, Inr (s0, dpy))" and "\<forall>k. pthread_mutex_lock_ret e k = 0"
    and "i < NumWinThreads s0"
  shows "Ready (WinThreads s0 ! i)" and "pcs s0 ! i = P_while" and "trace s0 = []"
    and "i < length (pcs s0)"
proof -
  let ?dpy = "if \<not> MultiDisplays opts then XOpenDisplay_ret e 0 else 0"
  have "snd (start_up e opts) = Inr (s0, dpy)"
    using assms(1) by simp
  then obtain wts where c: "create_windows e opts ?dpy 0 [] = Inr wts"
    and s0: "s0 = \<lparr>MultiDisplays = MultiDisplays opts, Locking = Locking opts,
                   Texture = Texture opts, Animate = Animate opts,
                   WinThreads = create_threads e wts, ExitFlag = False, Mutex = False,
                   DpyLock = False, CondMutex = False, step = 0, TexWidth = 0,
                   pcs = replicate (length wts) P_while, aborted = False, trace = []\<rparr>"
    unfolding snd_start_up by (auto split: if_splits sum.splits)
  have w: "WinThreads s0 = create_threads e wts"
    and p: "pcs s0 = replicate (length wts) P_while" and t: "trace s0 = []"
    by (simp_all add: s0)
  have "\<forall>wt \<in> set wts. Ready wt"
    using create_windows_Ready [OF c assms(2)] by simp
  moreover have i: "i < length wts"
    using assms(3) w by (simp add: NumWinThreads_def create_threads_def)
  ultimately show "Ready (WinThreads s0 ! i)"
    by (simp add: w create_threads_def)
  show "pcs s0 ! i = P_while" "trace s0 = []" "i < length (pcs s0)"
    using i p t by simp_all
qed

lemma blocked_at_gate:
  "pcs s ! i = P_lock_Ready \<Longrightarrow> Ready (WinThreads s ! i) \<Longrightarrow> thread_step i s = s"
  by (simp add: thread_step_def draw_loop_step_def)

lemma gate_counts:
  "gate_log i tr = Some (opn, held) \<Longrightarrow>
   presents i tr + (if held then 1 else 0) \<le> acquisitions i tr \<and>
   acquisitions i tr + (if opn then 1 else 0) \<le> releases i tr"
proof (induction tr arbitrary: opn held rule: rev_induct)
  case Nil
  then show ?case
    by (simp add: gate_log_def presents_def acquisitions_def releases_def)
next
  case (snoc e tr)
  from snoc.prems obtain o' h' where g: "gate_log i tr = Some (o', h')"
    by (cases "gate_log i tr") (auto simp: gate_log_snoc gate_event_def)
  note ih = snoc.IH [OF g]
  show ?case
    using snoc.prems ih g
    by (auto simp: gate_log_snoc gate_event_def presents_def acquisitions_def releases_def
        is_present_def split: if_splits)
qed

lemma gate_ok_counts:
  "gate_ok i tr \<Longrightarrow> presents i tr \<le> acquisitions i tr \<and> acquisitions i tr \<le> releases i tr"
proof -
  assume "gate_ok i tr"
  then obtain opn held where "gate_log i tr = Some (opn, held)"
    by (auto simp: gate_ok_def)
  from gate_counts [OF this] show ?thesis
    by (auto split: if_splits)
qed

lemma run_double_expose:
  "gate_events 0 (trace (run double_expose_schedule fresh_state)) =
     [Main (Unlock_Ready 0), Unit 0 pthread_mutex_lock_Ready, Main (Unlock_Ready 0),
      Unit 0 (glXSwapBuffers 1 10), Unit 0 pthread_mutex_lock_Ready,
      Unit 0 (glXSwapBuffers 1 10)]"
  by (simp add: double_expose_schedule_def step_defs gate_events_def is_present_def)

text \<open>
  Against claim C10 as stated.  In the concrete run window 10 is exposed twice, the second
  time while the thread of unit 0 is inside its first frame.  The gate events of unit 0 are
  then: release, acquisition, release, present, acquisition, present.  No release lies
  between the two presents: the second frame uses the release that came before the first
  present.
\<close>

theorem present_without_new_release_counterexample:
  "snd (start_up good_env initial_options) = Inr (fresh_state, 1) \<and>
   gate_events 0 (trace (run double_expose_schedule fresh_state)) =
     [Main (Unlock_Ready 0), Unit 0 pthread_mutex_lock_Ready, Main (Unlock_Ready 0),
      Unit 0 (glXSwapBuffers 1 10), Unit 0 pthread_mutex_lock_Ready,
      Unit 0 (glXSwapBuffers 1 10)] \<and>
   \<not> released_since_present 0 False (trace (run double_expose_schedule fresh_state))"
proof -
  have "\<not> released_since_present 0 False (trace (run double_expose_schedule fresh_state))"
    by (simp add: double_expose_schedule_def step_defs is_present_def)
  then show ?thesis
    using run_double_expose start_up_good_env by simp
qed

text \<open>
  Claim C10, amended.  In both modes (\<open>Animate\<close> set or not), in every state \<open>s\<close> that an
  interleaving reaches after a start-up in which the gates were locked: the gate of unit
  \<open>i\<close> starts closed and its thread starts at the head of the loop; in the history every
  present of the unit comes after an acquisition of its gate made since its previous
  present, and every acquisition comes after a release made since the previous acquisition
  (\<open>gate_ok\<close>); so there are never more presents than acquisitions nor more acquisitions
  than releases; and a thread at its closed gate does not move.
\<close>

theorem presents_need_acquired_gate:
  assumes "start_up e opts = (out, Inr (s0, dpy))" and "\<forall>k. pthread_mutex_lock_ret e k = 0"
    and "i < NumWinThreads s0" and "s = run sch (s0\<lparr>Animate := anim\<rparr>)"
  shows "Ready (WinThreads s0 ! i) \<and> pcs s0 ! i = P_while \<and> gate_ok i (trace s) \<and>
    presents i (trace s) \<le> acquisitions i (trace s) \<and>
    acquisitions i (trace s) \<le> releases i (trace s) \<and>
    (pcs s ! i = P_lock_Ready \<and> Ready (WinThreads s ! i) \<longrightarrow> thread_step i s = s)"
proof -
  let ?s = "s0\<lparr>Animate := anim\<rparr>"
  note c = start_up_closed [OF assms(1,2,3)]
  have "gate_inv i ?s"
    using c by (intro gate_inv_start) (simp_all add: in_frame_def)
  then have "gate_inv i (run sch ?s)"
    using c(4) assms(3) by (intro gate_inv_run) (simp_all add: NumWinThreads_def)
  then have g: "gate_ok i (trace s)"
    using assms(4) by (simp add: gate_inv_ok)
  show ?thesis
    using c(1,2) g gate_ok_counts [OF g] blocked_at_gate by blast
qed

theorem presents_need_acquired_gate_witness:
  "start_up good_env initial_options =
     ([Stdout ''glthreads: Using XLockDisplay()/XUnlockDisplay().'',
       Stdout ''glthreads: Single display connection.'',
       Stdout ''XInitThreads() returned %d (success)'',
       Stdout ''glthreads: creating windows'',
       Stdout ''glthreads: creating threads'',
       Stdout ''glthreads: Created thread %p'',
       Stdout ''glthreads: Created thread %p''],
      Inr (fresh_state, 1)) \<and>
   (\<forall>k. pthread_mutex_lock_ret good_env k = 0) \<and> 0 < NumWinThreads fresh_state \<and>
   gate_ok 0 (trace (run double_expose_schedule fresh_state)) \<and>
   presents 0 (trace (run double_expose_schedule fresh_state)) = 2 \<and>
   releases 0 (trace (run double_expose_schedule fresh_state)) = 2"
proof -
  have k: "\<forall>k. pthread_mutex_lock_ret good_env k = 0"
    by (simp add: good_env_def)
  have n: "0 < NumWinThreads fresh_state"
    by (simp add: NumWinThreads_def fresh_state_def)
  have a: "fresh_state\<lparr>Animate := True\<rparr> = fresh_state"
    by (simp add: fresh_state_def)
  have r: "run double_expose_schedule fresh_state =
      run double_expose_schedule (fresh_state\<lparr>Animate := True\<rparr>)"
    by (simp only: a)
  note t = presents_need_acquired_gate [OF start_up_good_env k n r]
  have p: "presents 0 (trace (run double_expose_schedule fresh_state)) = 2"
    by (simp add: double_expose_schedule_def step_defs presents_def is_present_def)
  have q: "releases 0 (trace (run double_expose_schedule fresh_state)) = 2"
    by (simp add: double_expose_schedule_def step_defs releases_def)
  show ?thesis
    using start_up_good_env k n t p q by (intro conjI) simp_all
qed

lemma renders_did:
  "renders i (xs @ ys) = renders i xs @ renders i ys"
  "renders i [] = []"
  "renders i (Unit j c # es) = (if j = i \<and> is_render c then [Unit j c] else []) @ renders i es"
  "renders i (Main d # es) = renders i es"
  by (simp_all add: renders_def)

lemma renders_prims [simp]:
  "renders i (trace (goto j p s)) = renders i (trace s)"
  "renders i (trace (upd_wt j f s)) = renders i (trace s)"
  by (simp_all add: prim_defs)

lemma renders_LOCK_step [simp]: "renders i (trace (LOCK_step j p s)) = renders i (trace s)"
  by (simp add: LOCK_step_def renders_did is_render_def)

lemma renders_UNLOCK_step [simp]: "renders i (trace (UNLOCK_step j p s)) = renders i (trace s)"
  by (simp add: UNLOCK_step_def renders_did is_render_def)

lemma renders_MakeNewTexture_other:
  "j \<noteq> i \<Longrightarrow> renders i (trace (MakeNewTexture j site m s)) = renders i (trace s)"
  by (cases m; cases site) (simp_all add: MakeNewTexture_def renders_did)

lemma draw_loop_step_other_renders:
  "j \<noteq> i \<Longrightarrow> renders i (trace (draw_loop_step j s)) = renders i (trace s)"
  by (cases "pcs s ! j")
    (simp_all add: draw_loop_step_def Let_def renders_did renders_MakeNewTexture_other)

lemma exit_inv_own_step:
  assumes "exit_inv i s" and "i < length (pcs s)" and "i < length (WinThreads s)"
  shows "exit_inv i (draw_loop_step i s) \<and>
    renders i (trace (draw_loop_step i s)) = renders i (trace s)"
  using assms
  by (cases "pcs s ! i")
    (auto simp: exit_inv_def waiting_def draw_loop_step_def Let_def renders_did is_render_def)

lemma exit_inv_thread_step:
  assumes "exit_inv i s" and "i < length (pcs s)" and "i < length (WinThreads s)"
  shows "exit_inv i (thread_step j s) \<and>
    renders i (trace (thread_step j s)) = renders i (trace s)"
proof (cases "j = i")
  case True
  then show ?thesis
    using assms exit_inv_own_step [of i s] by (simp add: thread_step_def)
next
  case False
  then show ?thesis
    using assms
    by (simp add: thread_step_def exit_inv_def draw_loop_step_other_wt
        draw_loop_step_other_pc draw_loop_step_other_renders)
qed

lemma waiting_broadcast: "waiting (if p = P_wait then P_woken else p) = waiting p"
  by (simp add: waiting_def)

lemma exit_inv_main_step:
  assumes "exit_inv i s" and "i < length (pcs s)" and "i < length (WinThreads s)"
    and "d = Unlock_Ready i \<longrightarrow> ExitFlag s"
  shows "exit_inv i (main_step d s) \<and>
    renders i (trace (main_step d s)) = renders i (trace s)"
  using assms
  by (cases d)
    (auto simp: main_step_def exit_inv_def log_def upd_wt_def renders_def nth_upd_same
      waiting_broadcast)

lemma exit_inv_wakeup:
  assumes "exit_inv i s" and "i < length (pcs s)"
  shows "exit_inv i (perform (Spurious_wakeup j) s) \<and>
    renders i (trace (perform (Spurious_wakeup j) s)) = renders i (trace s)"
  using assms by (cases "j = i") (auto simp: exit_inv_def waiting_def)

lemma exit_inv_perform:
  assumes "exit_inv i s" and "i < length (pcs s)" and "i < length (WinThreads s)"
    and "a = Main_op (Unlock_Ready i) \<longrightarrow> ExitFlag s"
  shows "exit_inv i (perform a s) \<and> renders i (trace (perform a s)) = renders i (trace s)"
proof (cases a)
  case (Unit_step j)
  then show ?thesis
    using assms exit_inv_thread_step [of i s j] by simp
next
  case (Main_op d)
  then show ?thesis
    using assms exit_inv_main_step [of i s d] by simp
next
  case (Spurious_wakeup j)
  then show ?thesis
    using assms exit_inv_wakeup [of i s j] by simp
qed

lemma exit_inv_run:
  "exit_inv i s \<Longrightarrow> i < length (pcs s) \<Longrightarrow> i < length (WinThreads s) \<Longrightarrow>
   shutdown_releases i sch s \<Longrightarrow>
   exit_inv i (run sch s) \<and> renders i (trace (run sch s)) = renders i (trace s)"
proof (induction sch arbitrary: s)
  case Nil
  then show ?case by (simp add: run_Nil)
next
  case (Cons a sch)
  have p: "exit_inv i (perform a s) \<and> renders i (trace (perform a s)) = renders i (trace s)"
    using Cons.prems by (intro exit_inv_perform) simp_all
  have "exit_inv i (run sch (perform a s)) \<and>
      renders i (trace (run sch (perform a s))) = renders i (trace (perform a s))"
    using Cons.prems p by (intro Cons.IH) simp_all
  then show ?case
    using p by (simp add: run_Cons)
qed

lemma run_lengths:
  "length (pcs (run sch s)) = length (pcs s)"
  "length (WinThreads (run sch s)) = length (WinThreads s)"
  by (induction sch arbitrary: s) (simp_all add: run_Nil run_Cons)

lemma ExitFlag_perform: "ExitFlag s \<Longrightarrow> ExitFlag (perform a s)"
  by (cases a) (simp_all add: thread_step_def main_step_def log_def ExitFlag_exec_dop)

lemma shutdown_releases_ExitFlag: "ExitFlag s \<Longrightarrow> shutdown_releases i sch s"
  by (induction sch arbitrary: s) (simp_all add: ExitFlag_perform)


lemma shutdown_releases_escape:
  assumes "\<not> aborted s"
  shows "shutdown_releases i (map Main_op (keypress s XK_Escape k)) s"
proof -
  have e: "ExitFlag (main_step Set_ExitFlag s')" if "\<not> aborted s'" for s'
    using that by (simp add: main_step_def log_def)
  have a: "\<not> aborted (main_step d s')" if "\<not> aborted s'" for d s'
    using that by simp
  show ?thesis
    using assms
    by (simp add: keypress_def signal_redraw_def shutdown_releases_ExitFlag e a)
qed

lemma woken_exits:
  assumes "\<not> aborted s" and "i < length (pcs s)" and "i < length (WinThreads s)"
    and "ExitFlag s" and "pcs s ! i = P_lock_Ready" and "\<not> Ready (WinThreads s ! i)"
  shows "pcs (run [Unit_step i, Unit_step i] s) ! i = P_done"
    and "trace (run [Unit_step i, Unit_step i] s) = trace s @ [Unit i pthread_mutex_lock_Ready]"
  using assms
  by (simp_all add: run_Cons run_Nil thread_step_def draw_loop_step_def)

text \<open>
  Claim C2.  Let unit \<open>i\<close> be between a present and its gate, with the gate closed or
  \<open>ExitFlag\<close> already set, and let the gate be released from then on only in states where
  \<open>ExitFlag\<close> is set, as the handler of the exit key does (last conjunct: it sets the flag
  before it unlocks any gate).  Then,
  whatever the interleaving, the unit makes no GLX or OpenGL call (no drawing call, no
  present); it stays before its gate or at the test after it or has returned; and when it
  stands at its released gate, \<open>ExitFlag\<close> is set and its next two steps are the
  acquisition of the gate and the \<open>break\<close> out of the loop, with nothing else in the
  history.
\<close>

theorem shutdown_wake_exits_without_drawing:
  assumes "i < length (pcs s)" and "i < length (WinThreads s)"
    and "waiting (pcs s ! i)" and "ExitFlag s \<or> Ready (WinThreads s ! i)"
    and "shutdown_releases i sch s"
  shows "renders i (trace (run sch s)) = renders i (trace s) \<and>
    (waiting (pcs (run sch s) ! i) \<or> pcs (run sch s) ! i = P_check \<or>
     pcs (run sch s) ! i = P_done) \<and>
    (\<not> aborted (run sch s) \<and> pcs (run sch s) ! i = P_lock_Ready \<and>
     \<not> Ready (WinThreads (run sch s) ! i) \<longrightarrow>
       ExitFlag (run sch s) \<and>
       pcs (run [Unit_step i, Unit_step i] (run sch s)) ! i = P_done \<and>
       trace (run [Unit_step i, Unit_step i] (run sch s)) =
         trace (run sch s) @ [Unit i pthread_mutex_lock_Ready]) \<and>
    (\<not> aborted s' \<longrightarrow> shutdown_releases i (map Main_op (keypress s' XK_Escape k)) s')"
proof -
  have "exit_inv i s"
    using assms(3,4) by (auto simp: exit_inv_def)
  then have r: "exit_inv i (run sch s) \<and> renders i (trace (run sch s)) = renders i (trace s)"
    using assms(1,2,5) by (intro exit_inv_run)
  have l: "i < length (pcs (run sch s))" "i < length (WinThreads (run sch s))"
    using assms(1,2) by (simp_all add: run_lengths)
  have p: "waiting (pcs (run sch s) ! i) \<or> pcs (run sch s) ! i = P_check \<or>
     pcs (run sch s) ! i = P_done"
    using r by (auto simp: exit_inv_def)
  have w: "ExitFlag (run sch s) \<and>
       pcs (run [Unit_step i, Unit_step i] (run sch s)) ! i = P_done \<and>
       trace (run [Unit_step i, Unit_step i] (run sch s)) =
         trace (run sch s) @ [Unit i pthread_mutex_lock_Ready]"
    if "\<not> aborted (run sch s) \<and> pcs (run sch s) ! i = P_lock_Ready \<and>
     \<not> Ready (WinThreads (run sch s) ! i)"
  proof -
    have "ExitFlag (run sch s)"
      using r that by (auto simp: exit_inv_def)
    then show ?thesis
      using that l woken_exits [of "run sch s" i] by simp
  qed
  show ?thesis
    using r p w shutdown_releases_escape by blast
qed

theorem shutdown_wake_exits_without_drawing_witness:
  "0 < length (pcs fresh_state) \<and> 0 < length (WinThreads fresh_state) \<and>
   waiting (pcs fresh_state ! 0) \<and> Ready (WinThreads fresh_state ! 0) \<and>
   shutdown_releases 0 shutdown_schedule fresh_state \<and>
   \<not> aborted (run shutdown_schedule fresh_state) \<and>
   pcs (run shutdown_schedule fresh_state) ! 0 = P_lock_Ready \<and>
   \<not> Ready (WinThreads (run shutdown_schedule fresh_state) ! 0) \<and>
   renders 0 (trace (run shutdown_schedule fresh_state)) = [] \<and>
   pcs (run [Unit_step 0, Unit_step 0] (run shutdown_schedule fresh_state)) ! 0 = P_done \<and>
   trace (run [Unit_step 0, Unit_step 0] (run shutdown_schedule fresh_state)) =
     [Main Set_ExitFlag, Main (Unlock_Ready 0), Main (Unlock_Ready 1),
      Unit 0 pthread_mutex_lock_Ready]"
proof -
  have h: "0 < length (pcs fresh_state)" "0 < length (WinThreads fresh_state)"
    "waiting (pcs fresh_state ! 0)" "ExitFlag fresh_state \<or> Ready (WinThreads fresh_state ! 0)"
    by (simp_all add: fresh_state_def fresh_unit_def waiting_def)
  have g: "Ready (WinThreads fresh_state ! 0)"
    by (simp add: fresh_state_def fresh_unit_def)
  have sr: "shutdown_releases 0 shutdown_schedule fresh_state"
    by (simp add: shutdown_schedule_def step_defs)
  have f: "\<not> aborted (run shutdown_schedule fresh_state)"
    "pcs (run shutdown_schedule fresh_state) ! 0 = P_lock_Ready"
    "\<not> Ready (WinThreads (run shutdown_schedule fresh_state) ! 0)"
    "trace (run shutdown_schedule fresh_state) =
      [Main Set_ExitFlag, Main (Unlock_Ready 0), Main (Unlock_Ready 1)]"
    "renders 0 (trace fresh_state) = []"
    by (simp_all add: shutdown_schedule_def step_defs renders_def)
  note t = shutdown_wake_exits_without_drawing [OF h sr]
  have r: "renders 0 (trace (run shutdown_schedule fresh_state)) = []"
    using t f(5) by simp
  have w: "pcs (run [Unit_step 0, Unit_step 0] (run shutdown_schedule fresh_state)) ! 0 = P_done"
    "trace (run [Unit_step 0, Unit_step 0] (run shutdown_schedule fresh_state)) =
     [Main Set_ExitFlag, Main (Unlock_Ready 0), Main (Unlock_Ready 1),
      Unit 0 pthread_mutex_lock_Ready]"
    using t f(1,2,3) by (simp_all add: f(4))
  show ?thesis
    using h(1,2,3) g sr f(1,2,3) r w by (intro conjI)
qed


lemma Animate_parse_loop:
  "parse_loop atoi opts args = Inr opts' \<Longrightarrow> Animate opts' = Animate opts"
  by (induction atoi opts args rule: parse_loop.induct) (auto split: if_splits)

lemma Animate_parse_args: "parse_args atoi args = (out, Inr opts) \<Longrightarrow> Animate opts"
  by (auto simp: parse_args_def initial_options_def dest: Animate_parse_loop
      split: if_splits sum.splits prod.splits)

lemma Animate_start_up:
  assumes "start_up e opts = (out, Inr (s0, dpy))"
  shows "Animate s0 = Animate opts"
proof -
  have "snd (start_up e opts) = Inr (s0, dpy)"
    using assms by simp
  then show ?thesis
    unfolding snd_start_up by (auto split: if_splits sum.splits)
qed

lemma Animate_exec_dop: "Animate (exec_dop d s) = Animate s"
  by (cases d) (simp_all add: prim_defs split: if_splits)

lemma Animate_draw_loop_step: "Animate (draw_loop_step i s) = Animate s"
  by (simp add: draw_loop_step_def MakeNewTexture_def LOCK_step_def UNLOCK_step_def prim_defs
      Let_def split: pc.splits mnt.splits site.splits if_splits)

lemma Animate_perform: "Animate (perform a s) = Animate s"
  by (cases a)
    (simp_all add: thread_step_def main_step_def Animate_exec_dop
      Animate_draw_loop_step prim_defs)

lemma Animate_run: "Animate (run sch s) = Animate s"
  by (induction sch arbitrary: s) (simp_all add: run_Nil run_Cons Animate_perform)

lemma step_key_animated:
  "Animate s \<Longrightarrow> keypress s XK_s k = [] \<and> keypress s XK_S k = []"
  by (simp add: keypress_def)


lemma step_key_ops:
  "\<not> Animate s \<Longrightarrow> keypress s XK_s k = [Lock_CondMutex, Cond_broadcast, Unlock_CondMutex]"
  "\<not> Animate s \<Longrightarrow> keypress s XK_S k = [Lock_CondMutex, Cond_broadcast, Unlock_CondMutex]"
  by (simp_all add: keypress_def signal_redraw_def)




end
